theory Spec2Isabelle
  imports Complex_Main "HOL-Library.Word" "HOL-Library.Char_ord" "HOL-Library.List_Lexorder"
begin

section \<open>Python values used by the snapshot engine\<close>

text \<open>
  A Python \<open>str\<close> is modelled as a \<open>string\<close>, one \<open>char\<close> per code point; the
  embedding therefore covers the strings whose code points lie below 256. The string
  methods below follow CPython on that range.
\<close>

definition py_isspace :: "char \<Rightarrow> bool" where
  \<comment> \<open>\<open>str.isspace\<close> on one character: TAB..CR, FS..US, SPACE, NEL, NBSP.\<close>
  "py_isspace c = (of_char c \<in> {9, 10, 11, 12, 13, 28, 29, 30, 31, 32, 133, 160 :: nat})"

definition lower_char :: "char \<Rightarrow> char" where
  \<comment> \<open>\<open>str.lower\<close> on one character: A..Z and the Latin-1 capitals (without the
      multiplication sign) move up by 32.\<close>
  "lower_char c =
     (let n = (of_char c :: nat)
      in if (65 \<le> n \<and> n \<le> 90) \<or> (192 \<le> n \<and> n \<le> 222 \<and> n \<noteq> 215)
         then char_of (n + 32) else c)"

definition lower :: "string \<Rightarrow> string" where
  "lower s = map lower_char s"

definition strip :: "string \<Rightarrow> string" where
  \<comment> \<open>\<open>s.strip()\<close>\<close>
  "strip s = rev (dropWhile py_isspace (rev (dropWhile py_isspace s)))"

definition startswith :: "string \<Rightarrow> string \<Rightarrow> bool" where
  \<comment> \<open>\<open>s.startswith(p)\<close>\<close>
  "startswith s p = (take (length p) s = p)"

fun contains :: "string \<Rightarrow> string \<Rightarrow> bool" where
  \<comment> \<open>\<open>sub in s\<close> for two strings; the first argument is \<open>s\<close>.\<close>
  "contains [] sub = (sub = [])"
| "contains (c # cs) sub = (startswith (c # cs) sub \<or> contains cs sub)"

fun split_on :: "char \<Rightarrow> string \<Rightarrow> string list" where
  \<comment> \<open>\<open>s.split(sep)\<close> for a one-character separator: empty fields are kept.\<close>
  "split_on sep [] = [[]]"
| "split_on sep (c # cs) =
     (if c = sep then [] # split_on sep cs
      else (case split_on sep cs of
              [] \<Rightarrow> [[c]]
            | w # ws \<Rightarrow> (c # w) # ws))"

fun split_ws_from :: "string \<Rightarrow> string \<Rightarrow> string list" where
  \<comment> \<open>the scan of \<open>s.split()\<close>; the second argument is the current field, reversed.\<close>
  "split_ws_from [] w = (if w = [] then [] else [rev w])"
| "split_ws_from (c # cs) w =
     (if py_isspace c
      then (if w = [] then split_ws_from cs [] else rev w # split_ws_from cs [])
      else split_ws_from cs (c # w))"

definition split_ws :: "string \<Rightarrow> string list" where
  \<comment> \<open>\<open>s.split()\<close>: fields between runs of whitespace, none of them empty.\<close>
  "split_ws s = split_ws_from s []"

section \<open>JSON values and the dynamic operations of Python\<close>

text \<open>
  The collectors build, and the snapshot manager reads, dictionaries typed
  \<open>Dict[str, Any]\<close>: values as \<open>json.load\<close> returns them. A dictionary is an
  association list in insertion order (the order \<open>items()\<close> iterates in); a Python
  dictionary has no repeated key. A float is carried as its 64 bits; the embedding reads
  its zero test only and does not interpret float arithmetic.
\<close>

datatype json =
    JNull
  | JBool bool
  | JInt int
  | JFloat "64 word"
  | JStr string
  | JList "json list"
  | JDict "(string \<times> json) list"

datatype error =
    TypeError
  | AttributeError
  | KeyError
  | IndexError
  | Float_arithmetic  \<comment> \<open>not a Python exception: marks float arithmetic, which the
                          embedding leaves uninterpreted\<close>

type_synonym py_dict = "(string \<times> json) list"

definition ebind :: "error + 'a \<Rightarrow> ('a \<Rightarrow> error + 'b) \<Rightarrow> error + 'b" where
  \<comment> \<open>an exception ends the computation; a value is passed on\<close>
  "ebind r f = (case r of Inl e \<Rightarrow> Inl e | Inr x \<Rightarrow> f x)"

definition truthy :: "json \<Rightarrow> bool" where
  \<comment> \<open>\<open>bool(x)\<close>, as \<open>if x:\<close> tests it\<close>
  "truthy x =
     (case x of
        JNull \<Rightarrow> False
      | JBool b \<Rightarrow> b
      | JInt n \<Rightarrow> n \<noteq> 0
      | JFloat w \<Rightarrow> take_bit 63 w \<noteq> 0
      | JStr s \<Rightarrow> s \<noteq> []
      | JList xs \<Rightarrow> xs \<noteq> []
      | JDict kvs \<Rightarrow> kvs \<noteq> [])"

definition py_len :: "json \<Rightarrow> error + nat" where
  \<comment> \<open>\<open>len(x)\<close>\<close>
  "py_len x =
     (case x of
        JStr s \<Rightarrow> Inr (length s)
      | JList xs \<Rightarrow> Inr (length xs)
      | JDict kvs \<Rightarrow> Inr (length kvs)
      | _ \<Rightarrow> Inl TypeError)"

definition py_get :: "json \<Rightarrow> string \<Rightarrow> json \<Rightarrow> error + json" where
  \<comment> \<open>\<open>x.get(key, default)\<close>: only a dictionary has the method\<close>
  "py_get x key dflt =
     (case x of
        JDict kvs \<Rightarrow> Inr (case map_of kvs key of None \<Rightarrow> dflt | Some v \<Rightarrow> v)
      | _ \<Rightarrow> Inl AttributeError)"

definition py_keys :: "json \<Rightarrow> error + string list" where
  \<comment> \<open>\<open>x.keys()\<close>\<close>
  "py_keys x = (case x of JDict kvs \<Rightarrow> Inr (map fst kvs) | _ \<Rightarrow> Inl AttributeError)"

definition py_in :: "string \<Rightarrow> json \<Rightarrow> error + bool" where
  \<comment> \<open>\<open>key in x\<close> for a string \<open>key\<close>: a key of a dictionary, an element of a list,
      a substring of a string\<close>
  "py_in key x =
     (case x of
        JDict kvs \<Rightarrow> Inr (key \<in> set (map fst kvs))
      | JList xs \<Rightarrow> Inr (JStr key \<in> set xs)
      | JStr s \<Rightarrow> Inr (contains s key)
      | _ \<Rightarrow> Inl TypeError)"

definition py_getitem :: "json \<Rightarrow> string \<Rightarrow> error + json" where
  \<comment> \<open>\<open>x[key]\<close> for a string \<open>key\<close>\<close>
  "py_getitem x key =
     (case x of
        JDict kvs \<Rightarrow> (case map_of kvs key of None \<Rightarrow> Inl KeyError | Some v \<Rightarrow> Inr v)
      | _ \<Rightarrow> Inl TypeError)"

definition isinstance_int :: "json \<Rightarrow> bool" where
  \<comment> \<open>\<open>isinstance(x, int)\<close>: \<open>bool\<close> is a subclass of \<open>int\<close>\<close>
  "isinstance_int x = (case x of JInt _ \<Rightarrow> True | JBool _ \<Rightarrow> True | _ \<Rightarrow> False)"

section \<open>Inventory\<close>

subsection \<open>Reading the flat-text inventory\<close>







record host_entry =
  host_name :: string
  host_section :: "string option"   \<comment> \<open>\<open>None\<close> before the first section header\<close>
  host_line :: string


definition dict_set :: "('k \<times> 'v) list \<Rightarrow> 'k \<Rightarrow> 'v \<Rightarrow> ('k \<times> 'v) list" where
  \<comment> \<open>\<open>d[key] = v\<close>: a key the dictionary has keeps its place, a new key goes last\<close>
  "dict_set d key v =
     (if key \<in> set (map fst d) then map (\<lambda>(k, w). if k = key then (k, v) else (k, w)) d
      else d @ [(key, v)])"



subsection \<open>Devices\<close>

record device_info =
  name :: string
  hostname :: string
  username :: string
  password :: string
  device_type :: string
  node_id :: "int option"
  priority :: "int option"
  port :: int

definition make_device_info ::
  "string \<Rightarrow> string \<Rightarrow> string \<Rightarrow> int option \<Rightarrow> int option \<Rightarrow> device_info option" where
  \<comment> \<open>\<open>DeviceInfo(name=..., hostname=..., device_type=..., node_id=..., priority=...)\<close>
      with \<open>__post_init__\<close>: an empty name or hostname raises \<open>ValueError\<close> (\<open>None\<close>
      here), and a controller gets port 443\<close>
  "make_device_info nm host dtype nid prio =
     (if nm = [] then None
      else if host = [] then None
      else Some \<lparr>name = nm, hostname = host, username = [], password = [],
                 device_type = dtype, node_id = nid, priority = prio,
                 port = (if dtype = ''apic'' then 443 else 22)\<rparr>)"

subsection \<open>Parsing a host line\<close>

definition is_digit :: "char \<Rightarrow> bool" where
  "is_digit c = (CHR ''0'' \<le> c \<and> c \<le> CHR ''9'')"

definition digit_val :: "char \<Rightarrow> nat" where
  "digit_val c = of_char c - of_char CHR ''0''"

fun digits_from :: "string \<Rightarrow> nat \<Rightarrow> bool \<Rightarrow> nat option" where
  \<comment> \<open>decimal digits, where single underscores may stand between two digits; the flag
      says that the character before was a digit\<close>
  "digits_from [] acc after_digit = (if after_digit then Some acc else None)"
| "digits_from (c # cs) acc after_digit =
     (if is_digit c then digits_from cs (acc * 10 + digit_val c) True
      else if c = CHR ''_'' \<and> after_digit \<and> cs \<noteq> [] \<and> is_digit (hd cs)
           then digits_from cs acc False
      else None)"

definition py_int :: "string \<Rightarrow> int option" where
  \<comment> \<open>\<open>int(s)\<close> for a string: \<open>None\<close> is \<open>ValueError\<close>. Surrounding whitespace and a
      sign are accepted. The limit on the number of digits of recent interpreters is not
      part of the model.\<close>
  "py_int s =
     (case strip s of
        [] \<Rightarrow> None
      | c # cs \<Rightarrow>
          if c = CHR ''-'' then map_option (\<lambda>n. - int n) (digits_from cs 0 False)
          else if c = CHR ''+'' then map_option int (digits_from cs 0 False)
          else map_option int (digits_from (c # cs) 0 False))"

fun collect_params :: "string list \<Rightarrow> (string \<times> string) list \<Rightarrow> (string \<times> string) list" where
  \<comment> \<open>\<open>for part in parts[1:]\<close>: the \<open>key=value\<close> parts, cut at the first \<open>=\<close>\<close>
  "collect_params [] params = params"
| "collect_params (part # rest) params =
     (if contains part ''=''
      then collect_params rest
             (dict_set params (takeWhile (\<lambda>c. c \<noteq> CHR ''='') part)
                (tl (dropWhile (\<lambda>c. c \<noteq> CHR ''='') part)))
      else collect_params rest params)"

definition section_device_type :: "string \<Rightarrow> string" where
  \<comment> \<open>the device type a section header names\<close>
  "section_device_type sec =
     (let section = lower sec in
      if contains section ''apic'' then ''apic''
      else if contains section ''leaf'' \<or> contains section ''leaves'' then ''leaf''
      else if contains section ''spine'' then ''spine''
      else ''other'')"

definition parse_ini_host :: "host_entry \<Rightarrow> device_info option" where
  \<comment> \<open>\<open>None\<close> is the result on every exception: an empty line has no \<open>parts[0]\<close>, and
      a host before the first section header has no section to lower\<close>
  "parse_ini_host host_data =
     (case split_ws (host_line host_data) of
        [] \<Rightarrow> None
      | hostnm # rest \<Rightarrow>
          (let params = collect_params rest [] in
           case host_section host_data of
             None \<Rightarrow> None
           | Some sec \<Rightarrow>
               (let dtype = section_device_type sec;
                    nid = (case map_of params ''node_id'' of
                             None \<Rightarrow> None
                           | Some v \<Rightarrow> py_int v);
                    prio = (case map_of params ''priority'' of
                              None \<Rightarrow> 1
                            | Some v \<Rightarrow> (case py_int v of None \<Rightarrow> 1 | Some p \<Rightarrow> p))
                in make_device_info hostnm hostnm dtype nid (Some prio))))"




section \<open>Fabric client\<close>

text \<open>
  The network is the environment of the client: what a login request to a controller
  returns, what a GET on an endpoint returns, whether an SSH connection opens, and what a
  command prints. \<open>requests\<close> raises a \<open>RequestException\<close> (connection errors, and
  \<open>raise_for_status\<close> on an error status) or a JSON decode error, or the response
  parses. \<open>exception_text\<close> is \<open>str(e)\<close>, the interpreter's message for an exception.
\<close>

datatype http_outcome = Request_exception | Json_decode_error | Response json

record environment =
  post_login :: "string \<Rightarrow> http_outcome"
  http_get :: "string \<Rightarrow> string \<Rightarrow> (string \<times> string) list option \<Rightarrow> http_outcome"
  ssh_connect :: "string \<Rightarrow> bool"
  exec_command :: "string \<Rightarrow> string \<Rightarrow> string option"
  exception_text :: "error \<Rightarrow> string"

subsection \<open>APICClient\<close>

record apic_client =
  apic_hostname :: string
  auth_token :: "json option"
  is_authenticated :: bool

definition new_apic_client :: "string \<Rightarrow> apic_client" where
  "new_apic_client host = \<lparr>apic_hostname = host, auth_token = None, is_authenticated = False\<rparr>"

definition py_index0 :: "json \<Rightarrow> error + json" where
  \<comment> \<open>\<open>x[0]\<close>: the first element of a list, the first character of a string; a
      dictionary of a JSON document has no key \<open>0\<close>\<close>
  "py_index0 x =
     (case x of
        JList xs \<Rightarrow> (case xs of [] \<Rightarrow> Inl IndexError | y # _ \<Rightarrow> Inr y)
      | JStr s \<Rightarrow> (case s of [] \<Rightarrow> Inl IndexError | c # _ \<Rightarrow> Inr (JStr [c]))
      | JDict kvs \<Rightarrow> Inl KeyError
      | _ \<Rightarrow> Inl TypeError)"

definition login_token :: "json \<Rightarrow> error + json option" where
  \<comment> \<open>the token of a login response; \<open>None\<close> when the response has no \<open>imdata\<close>\<close>
  "login_token auth_response =
     ebind (py_in ''imdata'' auth_response) (\<lambda>has_imdata.
       if \<not> has_imdata then Inr None
       else ebind (py_getitem auth_response ''imdata'') (\<lambda>imdata.
            ebind (py_len imdata) (\<lambda>n.
              if n > 0
              then ebind (py_index0 imdata) (\<lambda>first.
                   ebind (py_getitem first ''aaaLogin'') (\<lambda>login.
                   ebind (py_getitem login ''attributes'') (\<lambda>attributes.
                   ebind (py_getitem attributes ''token'') (\<lambda>token. Inr (Some token)))))
              else Inr None)))"

definition authenticate :: "environment \<Rightarrow> apic_client \<Rightarrow> error + bool \<times> apic_client" where
  \<comment> \<open>\<open>RequestException\<close>, \<open>KeyError\<close>, \<open>IndexError\<close> and \<open>JSONDecodeError\<close> are caught
      and give \<open>False\<close>; any other exception leaves the method\<close>
  "authenticate env c =
     (case post_login env (apic_hostname c) of
        Request_exception \<Rightarrow> Inr (False, c)
      | Json_decode_error \<Rightarrow> Inr (False, c)
      | Response auth_response \<Rightarrow>
          (case login_token auth_response of
             Inr (Some token) \<Rightarrow>
               Inr (True, c\<lparr>auth_token := Some token, is_authenticated := True\<rparr>)
           | Inr None \<Rightarrow> Inr (False, c)
           | Inl KeyError \<Rightarrow> Inr (False, c)
           | Inl IndexError \<Rightarrow> Inr (False, c)
           | Inl e \<Rightarrow> Inl e))"

definition get_data ::
  "environment \<Rightarrow> apic_client \<Rightarrow> string \<Rightarrow> (string \<times> string) list option \<Rightarrow> json" where
  \<comment> \<open>\<open>JNull\<close> is \<open>None\<close>\<close>
  "get_data env c endpoint params =
     (if \<not> is_authenticated c then JNull
      else (case http_get env (apic_hostname c) endpoint params of
              Response d \<Rightarrow> d
            | Request_exception \<Rightarrow> JNull
            | Json_decode_error \<Rightarrow> JNull))"

subsection \<open>NXOSClient\<close>

record nxos_client =
  nxos_hostname :: string
  is_connected :: bool

definition execute_command :: "environment \<Rightarrow> nxos_client \<Rightarrow> string \<Rightarrow> string option" where
  \<comment> \<open>the environment gives \<open>None\<close> for a command that exits with an error or raises\<close>
  "execute_command env c cmd =
     (if \<not> is_connected c then None else exec_command env (nxos_hostname c) cmd)"

fun execute_commands ::
  "environment \<Rightarrow> nxos_client \<Rightarrow> string list \<Rightarrow> (string \<times> string) list
     \<Rightarrow> (string \<times> string) list" where
  \<comment> \<open>\<open>for command in commands\<close>, filling \<open>results\<close>: a failed command gives \<open>""\<close>\<close>
  "execute_commands env c [] results = results"
| "execute_commands env c (cmd # rest) results =
     (case execute_command env c cmd of
        Some output \<Rightarrow> execute_commands env c rest (dict_set results cmd output)
      | None \<Rightarrow> execute_commands env c rest (dict_set results cmd []))"

subsection \<open>FabricClient\<close>

record fabric_client =
  apic_devices :: "device_info list"
  primary_apic :: "apic_client option"
  device_clients :: "(string \<times> nxos_client) list"

definition priority_key :: "device_info \<Rightarrow> int" where
  \<comment> \<open>\<open>x.priority or 1\<close>\<close>
  "priority_key x = (case priority x of None \<Rightarrow> 1 | Some p \<Rightarrow> if p = 0 then 1 else p)"

definition new_fabric_client :: "device_info list \<Rightarrow> fabric_client" where
  \<comment> \<open>\<open>__init__\<close>: \<open>sorted\<close> is stable, as \<open>sort_key\<close> is\<close>
  "new_fabric_client devices =
     \<lparr>apic_devices = sort_key priority_key devices, primary_apic = None, device_clients = []\<rparr>"

fun try_apics ::
  "environment \<Rightarrow> device_info list \<Rightarrow> fabric_client \<Rightarrow> error + bool \<times> fabric_client" where
  \<comment> \<open>\<open>for apic_device in self.apic_devices\<close>\<close>
  "try_apics env [] fc = Inr (False, fc)"
| "try_apics env (apic_device # rest) fc =
     (case authenticate env (new_apic_client (hostname apic_device)) of
        Inl e \<Rightarrow> Inl e
      | Inr (ok, apic) \<Rightarrow>
          if ok then Inr (True, fc\<lparr>primary_apic := Some apic\<rparr>)
          else try_apics env rest fc)"

definition connect_to_fabric :: "environment \<Rightarrow> fabric_client \<Rightarrow> error + bool \<times> fabric_client" where
  "connect_to_fabric env fc = try_apics env (apic_devices fc) fc"

definition get_fabric_data ::
  "environment \<Rightarrow> fabric_client \<Rightarrow> string \<Rightarrow> (string \<times> string) list option \<Rightarrow> json" where
  "get_fabric_data env fc endpoint params =
     (case primary_apic fc of
        None \<Rightarrow> JNull
      | Some apic \<Rightarrow> get_data env apic endpoint params)"

definition connect_to_device ::
  "environment \<Rightarrow> fabric_client \<Rightarrow> device_info \<Rightarrow> nxos_client option \<times> fabric_client" where
  "connect_to_device env fc device =
     (case map_of (device_clients fc) (name device) of
        Some c \<Rightarrow> (Some c, fc)
      | None \<Rightarrow>
          if ssh_connect env (hostname device)
          then (let c = \<lparr>nxos_hostname = hostname device, is_connected = True\<rparr>
                in (Some c, fc\<lparr>device_clients := dict_set (device_clients fc) (name device) c\<rparr>))
          else (None, fc))"

section \<open>Collectors\<close>

subsection \<open>BaseCollector\<close>

text \<open>
  A \<open>datetime\<close> is a count of microseconds, and so is the difference of two;
  \<open>total_seconds()\<close> is that count divided by \<open>10^6\<close>, which the model keeps as a rational
  number (the float that Python returns is the nearest one). The two readings of
  \<open>datetime.now()\<close> of a collection are arguments.
\<close>

record base_collector =
  self_name :: string
  self_collection_time :: "int option"
  self_errors :: "string list"

record collection_result =
  collector :: string
  start_time :: int
  end_time :: int
  duration_seconds :: rat
  errors :: "string list"
  data :: py_dict

definition new_collector :: "string \<Rightarrow> base_collector" where
  "new_collector nm = \<lparr>self_name = nm, self_collection_time = None, self_errors = []\<rparr>"

definition start_collection :: "int \<Rightarrow> base_collector \<Rightarrow> base_collector" where
  "start_collection now c = c\<lparr>self_collection_time := Some now, self_errors := []\<rparr>"

definition add_error :: "string \<Rightarrow> base_collector \<Rightarrow> base_collector" where
  "add_error e c = c\<lparr>self_errors := self_errors c @ [e]\<rparr>"

definition end_collection :: "int \<Rightarrow> base_collector \<Rightarrow> py_dict \<Rightarrow> error + collection_result" where
  \<comment> \<open>without a start there is no \<open>collection_time\<close> to subtract\<close>
  "end_collection now c d =
     (case self_collection_time c of
        None \<Rightarrow> Inl TypeError
      | Some t0 \<Rightarrow>
          Inr \<lparr>collector = self_name c,
               start_time = t0,
               end_time = now,
               duration_seconds = of_int (now - t0) / 1000000,
               errors = self_errors c,
               data = d\<rparr>)"

subsection \<open>Numbers in messages and comparisons\<close>

fun decimal :: "nat \<Rightarrow> string" where
  \<comment> \<open>\<open>str(n)\<close> for a natural number\<close>
  "decimal n =
     (if n < 10 then [char_of (48 + n)]
      else decimal (n div 10) @ [char_of (48 + n mod 10)])"

definition str_int :: "int \<Rightarrow> string" where
  \<comment> \<open>\<open>str(i)\<close>\<close>
  "str_int i = (if i < 0 then CHR ''-'' # decimal (nat (- i)) else decimal (nat i))"

definition py_eq_zero :: "json \<Rightarrow> bool" where
  \<comment> \<open>\<open>x == 0\<close>: true of the integer, the float and the boolean that are zero\<close>
  "py_eq_zero x =
     (case x of
        JInt n \<Rightarrow> n = 0
      | JBool b \<Rightarrow> \<not> b
      | JFloat w \<Rightarrow> take_bit 63 w = 0
      | _ \<Rightarrow> False)"

definition py_lt_int :: "json \<Rightarrow> int \<Rightarrow> error + bool" where
  \<comment> \<open>\<open>x < n\<close> for an integer \<open>n\<close>\<close>
  "py_lt_int x n =
     (case x of
        JInt m \<Rightarrow> Inr (m < n)
      | JBool b \<Rightarrow> Inr ((if b then 1 else 0) < n)
      | JFloat w \<Rightarrow> Inl Float_arithmetic
      | _ \<Rightarrow> Inl TypeError)"

definition py_gt_int :: "json \<Rightarrow> int \<Rightarrow> error + bool" where
  \<comment> \<open>\<open>x > n\<close> for an integer \<open>n\<close>\<close>
  "py_gt_int x n =
     (case x of
        JInt m \<Rightarrow> Inr (m > n)
      | JBool b \<Rightarrow> Inr ((if b then 1 else 0) > n)
      | JFloat w \<Rightarrow> Inl Float_arithmetic
      | _ \<Rightarrow> Inl TypeError)"

definition format_value :: "json \<Rightarrow> string" where
  \<comment> \<open>\<open>f"{x}"\<close> for the values the messages print: integers and booleans\<close>
  "format_value x =
     (case x of
        JInt n \<Rightarrow> str_int n
      | JBool b \<Rightarrow> (if b then ''True'' else ''False'')
      | JStr t \<Rightarrow> t
      | JNull \<Rightarrow> ''None''
      | _ \<Rightarrow> [])"

subsection \<open>FabricCollector\<close>

record endpoint_config =
  ep_endpoint :: string
  ep_description :: string
  ep_params :: "(string \<times> string) list option"

definition FABRIC_ENDPOINTS :: "(string \<times> endpoint_config) list" where
  "FABRIC_ENDPOINTS =
     [(''topology'', \<lparr>ep_endpoint = ''/api/class/fabricNode.json'',
                      ep_description = ''Fabric nodes and their status'', ep_params = None\<rparr>),
      (''links'', \<lparr>ep_endpoint = ''/api/class/fabricLink.json'',
                   ep_description = ''Fabric links between nodes'', ep_params = None\<rparr>),
      (''faults'', \<lparr>ep_endpoint = ''/api/class/faultInst.json'',
                    ep_description = ''Major and critical faults'',
                    ep_params = Some [(''query-target-filter'',
                       ''eq(faultInst.severity,'' @ [CHR 0x22] @ ''major'' @ [CHR 0x22] @ '','' @
                       [CHR 0x22] @ ''critical'' @ [CHR 0x22] @ '')'')]\<rparr>),
      (''health'', \<lparr>ep_endpoint = ''/api/class/healthInst.json'',
                    ep_description = ''Health scores for fabric objects'', ep_params = None\<rparr>),
      (''discovery'', \<lparr>ep_endpoint = ''/api/class/dhcpClient.json'',
                       ep_description = ''Fabric discovery and node registration'',
                       ep_params = None\<rparr>),
      (''isis'', \<lparr>ep_endpoint = ''/api/class/isisInternalRoute.json'',
                  ep_description = ''IS-IS internal routes'', ep_params = None\<rparr>),
      (''ospf'', \<lparr>ep_endpoint = ''/api/class/ospfInternalRoute.json'',
                  ep_description = ''OSPF internal routes'', ep_params = None\<rparr>),
      (''bgp'', \<lparr>ep_endpoint = ''/api/class/bgpInternalRoute.json'',
                 ep_description = ''BGP internal routes'', ep_params = None\<rparr>)]"

definition read_imdata :: "json \<Rightarrow> error + (nat \<times> json) option" where
  \<comment> \<open>\<open>response and 'imdata' in response\<close>, then \<open>len(response['imdata'])\<close> and
      \<open>response['imdata']\<close>; \<open>None\<close> is the \<open>else\<close> branch\<close>
  "read_imdata response =
     (if truthy response
      then ebind (py_in ''imdata'' response) (\<lambda>has_imdata.
             if has_imdata
             then ebind (py_getitem response ''imdata'') (\<lambda>imdata.
                  ebind (py_len imdata) (\<lambda>n. Inr (Some (n, imdata))))
             else Inr None)
      else Inr None)"

definition fabric_entry :: "endpoint_config \<Rightarrow> nat \<Rightarrow> json \<Rightarrow> string option \<Rightarrow> json" where
  \<comment> \<open>the dictionary stored under a data type; the \<open>error\<close> key only after an exception\<close>
  "fabric_entry config n records err =
     JDict ([(''endpoint'', JStr (ep_endpoint config)),
             (''description'', JStr (ep_description config)),
             (''count'', JInt (int n)),
             (''data'', records)]
            @ (case err of None \<Rightarrow> [] | Some e \<Rightarrow> [(''error'', JStr e)]))"

definition collect_endpoint ::
  "environment \<Rightarrow> fabric_client \<Rightarrow> string \<times> endpoint_config
     \<Rightarrow> base_collector \<times> py_dict \<Rightarrow> base_collector \<times> py_dict" where
  \<comment> \<open>the body of the loop: the \<open>try\<close> block and its \<open>except Exception\<close>\<close>
  "collect_endpoint env fc item st =
     (case item of (data_type, config) \<Rightarrow>
      case st of (c, fabric_data) \<Rightarrow>
        (case read_imdata (get_fabric_data env fc (ep_endpoint config) (ep_params config)) of
           Inr (Some (n, imdata)) \<Rightarrow>
             (c, dict_set fabric_data data_type (fabric_entry config n imdata None))
         | Inr None \<Rightarrow>
             (add_error (''No data returned for '' @ data_type) c,
              dict_set fabric_data data_type (fabric_entry config 0 (JList []) None))
         | Inl e \<Rightarrow>
             (add_error (''Failed to collect '' @ data_type @ '': '' @ exception_text env e) c,
              dict_set fabric_data data_type
                (fabric_entry config 0 (JList []) (Some (exception_text env e))))))"

fun collect_endpoints ::
  "environment \<Rightarrow> fabric_client \<Rightarrow> (string \<times> endpoint_config) list
     \<Rightarrow> base_collector \<times> py_dict \<Rightarrow> base_collector \<times> py_dict" where
  \<comment> \<open>\<open>for data_type, config in self.FABRIC_ENDPOINTS.items()\<close>\<close>
  "collect_endpoints env fc [] st = st"
| "collect_endpoints env fc (item # rest) st =
     collect_endpoints env fc rest (collect_endpoint env fc item st)"

definition entry_count :: "py_dict \<Rightarrow> string \<Rightarrow> error + json" where
  \<comment> \<open>\<open>data[collection]['count']\<close>\<close>
  "entry_count d collection =
     (case map_of d collection of
        None \<Rightarrow> Inl KeyError
      | Some entry \<Rightarrow> py_getitem entry ''count'')"

definition absent_or_empty :: "py_dict \<Rightarrow> string \<Rightarrow> error + bool" where
  \<comment> \<open>\<open>collection not in data or data[collection]['count'] == 0\<close>\<close>
  "absent_or_empty d collection =
     (if collection \<notin> set (map fst d) then Inr True
      else ebind (entry_count d collection) (\<lambda>n. Inr (py_eq_zero n)))"

definition validate_fabric_data :: "py_dict \<Rightarrow> base_collector \<Rightarrow> error + base_collector" where
  \<comment> \<open>the loop over \<open>['topology', 'links', 'faults']\<close>, unrolled, and the check of the
      fabric size; what is only logged leaves the collector as it is\<close>
  "validate_fabric_data d c =
     ebind (absent_or_empty d ''topology'') (\<lambda>no_topology.
     let c1 = (if no_topology
               then add_error
                 ''Critical: No topology data - fabric discovery may be incomplete'' c
               else c) in
     ebind (absent_or_empty d ''links'') (\<lambda>no_links.
     ebind (absent_or_empty d ''faults'') (\<lambda>no_faults.
     ebind (if no_faults then ebind (entry_count d ''faults'') (\<lambda>n. Inr (py_eq_zero n))
            else Inr False) (\<lambda>logged.
     if ''topology'' \<in> set (map fst d)
     then ebind (entry_count d ''topology'') (\<lambda>node_count.
          ebind (py_lt_int node_count 3) (\<lambda>small.
            if small
            then Inr (add_error (''Warning: Only '' @ format_value node_count @
                                 '' nodes found - fabric may be incomplete'') c1)
            else Inr c1))
     else Inr c1))))"

definition fabric_collect ::
  "environment \<Rightarrow> int \<Rightarrow> int \<Rightarrow> (string \<times> endpoint_config) list \<Rightarrow> fabric_client
     \<Rightarrow> base_collector \<Rightarrow> error + collection_result \<times> base_collector" where
  \<comment> \<open>\<open>FabricCollector.collect\<close> over a table of endpoints; \<open>t_start\<close> and \<open>t_end\<close>
      are the two readings of the clock\<close>
  "fabric_collect env t_start t_end table fc self =
     (let c0 = start_collection t_start self in
      case collect_endpoints env fc table (c0, []) of (c1, fabric_data) \<Rightarrow>
        ebind (validate_fabric_data fabric_data c1) (\<lambda>c2.
        ebind (end_collection t_end c2 fabric_data) (\<lambda>r. Inr (r, c2))))"


subsection \<open>LeafCollector\<close>

record command_config =
  cmd_command :: string
  cmd_description :: string

definition LEAF_COMMANDS :: "(string \<times> command_config) list" where
  "LEAF_COMMANDS =
     [(''interfaces'', \<lparr>cmd_command = ''show interface status'',
          cmd_description = ''Interface status and configuration''\<rparr>),
      (''port_channels'', \<lparr>cmd_command = ''show port-channel summary'',
          cmd_description = ''Port channel status and members''\<rparr>),
      (''mac_table'', \<lparr>cmd_command = ''show mac address-table'',
          cmd_description = ''MAC address table entries''\<rparr>),
      (''arp_table'', \<lparr>cmd_command = ''show ip arp vrf all'',
          cmd_description = ''ARP table entries for all VRFs''\<rparr>),
      (''vlans'', \<lparr>cmd_command = ''show vlan brief'',
          cmd_description = ''VLAN configuration and status''\<rparr>),
      (''vpc'', \<lparr>cmd_command = ''show vpc brief'',
          cmd_description = ''vPC status and configuration''\<rparr>),
      (''fabric_interfaces'', \<lparr>cmd_command = ''show interface fabric brief'',
          cmd_description = ''Fabric interface status''\<rparr>),
      (''endpoints'', \<lparr>cmd_command = ''show system internal epm endpoint summary'',
          cmd_description = ''Endpoint database summary''\<rparr>),
      (''bridge_domains'', \<lparr>cmd_command = ''show system internal epm bd summary'',
          cmd_description = ''Bridge domain endpoint summary''\<rparr>)]"

definition output_lines :: "string \<Rightarrow> string list" where
  \<comment> \<open>\<open>output.strip().split('\n')\<close>\<close>
  "output_lines output = split_on CHR 0x0A (strip output)"

paragraph \<open>show interface status\<close>

record interface_entry =
  ie_interface :: string
  ie_status :: string
  ie_vlan :: string
  ie_duplex :: string

definition is_data_line :: "string \<Rightarrow> bool" where
  \<comment> \<open>the filter that skips the header lines\<close>
  "is_data_line line = (\<not> startswith line ''Port'' \<and> \<not> startswith line ''----'')"

fun parse_lines :: "string list \<Rightarrow> interface_entry list \<Rightarrow> interface_entry list" where
  \<comment> \<open>\<open>for line in data_lines\<close>, appending to \<open>interfaces\<close>\<close>
  "parse_lines [] acc = acc"
| "parse_lines (line # rest) acc =
     (if strip line \<noteq> []
      then (let parts = split_ws line
            in if length parts \<ge> 4
               then parse_lines rest
                      (acc @ [\<lparr>ie_interface = parts ! 0, ie_status = parts ! 1,
                               ie_vlan = parts ! 2, ie_duplex = parts ! 3\<rparr>])
               else parse_lines rest acc)
      else parse_lines rest acc)"

definition is_up :: "interface_entry \<Rightarrow> bool" where
  \<comment> \<open>\<open>'connected' in i.get('status', '').lower()\<close>\<close>
  "is_up i = contains (lower (ie_status i)) ''connected''"

definition interface_json :: "interface_entry \<Rightarrow> json" where
  "interface_json i =
     JDict [(''interface'', JStr (ie_interface i)), (''status'', JStr (ie_status i)),
            (''vlan'', JStr (ie_vlan i)), (''duplex'', JStr (ie_duplex i))]"

definition parsed_interfaces :: "string \<Rightarrow> interface_entry list" where
  \<comment> \<open>the list \<open>interfaces\<close> at the end of \<open>parse_interface_status\<close>\<close>
  "parsed_interfaces output = parse_lines (filter is_data_line (output_lines output)) []"

definition parse_interface_status :: "string \<Rightarrow> json" where
  "parse_interface_status output =
     (let ifs = parsed_interfaces output
      in JDict [(''total_interfaces'', JInt (int (length ifs))),
                (''up_interfaces'', JInt (int (length (filter is_up ifs)))),
                (''interfaces'', JList (map interface_json ifs))])"

paragraph \<open>The other commands\<close>

fun parse_po_lines :: "string list \<Rightarrow> (string \<times> bool \<times> string) list" where
  \<comment> \<open>the port channels as (interface, up, protocol)\<close>
  "parse_po_lines [] = []"
| "parse_po_lines (line # rest) =
     (if contains line ''Po'' \<and> (contains line ''(SU)'' \<or> contains line ''(SD)'')
      then (let parts = split_ws line
            in if length parts \<ge> 2
               then (parts ! 0, contains line ''(SU)'', parts ! 1) # parse_po_lines rest
               else parse_po_lines rest)
      else parse_po_lines rest)"

definition parse_port_channel_summary :: "string \<Rightarrow> json" where
  "parse_port_channel_summary output =
     (let pcs = parse_po_lines (output_lines output)
      in JDict [(''total_port_channels'', JInt (int (length pcs))),
                (''up_port_channels'', JInt (int (length (filter (\<lambda>(i, up, p). up) pcs)))),
                (''port_channels'',
                   JList (map (\<lambda>(i, up, p).
                     JDict [(''interface'', JStr i),
                            (''status'', JStr (if up then ''up'' else ''down'')),
                            (''protocol'', JStr p)]) pcs))])"

definition is_hex :: "char \<Rightarrow> bool" where
  "is_hex c = (is_digit c \<or> (CHR ''a'' \<le> c \<and> c \<le> CHR ''f'') \<or> (CHR ''A'' \<le> c \<and> c \<le> CHR ''F''))"

definition mac_here :: "string \<Rightarrow> bool" where
  \<comment> \<open>the pattern \<open>[0-9a-fA-F]{4}\.[0-9a-fA-F]{4}\.[0-9a-fA-F]{4}\<close> at the start\<close>
  "mac_here s =
     (length s \<ge> 14 \<and> list_all is_hex (take 4 s) \<and> s ! 4 = CHR ''.'' \<and>
      list_all is_hex (take 4 (drop 5 s)) \<and> s ! 9 = CHR ''.'' \<and>
      list_all is_hex (take 4 (drop 10 s)))"

fun search_at :: "(string \<Rightarrow> bool) \<Rightarrow> string \<Rightarrow> bool" where
  \<comment> \<open>\<open>re.search\<close>: the pattern matches at some position\<close>
  "search_at here [] = here []"
| "search_at here (c # cs) = (here (c # cs) \<or> search_at here cs)"

definition digits_then :: "(string \<Rightarrow> bool) \<Rightarrow> string \<Rightarrow> bool" where
  \<comment> \<open>\<open>\d+\<close> and then the rest of a pattern that does not start with a digit\<close>
  "digits_then k s = (s \<noteq> [] \<and> is_digit (hd s) \<and> k (dropWhile is_digit s))"

definition dot_then :: "(string \<Rightarrow> bool) \<Rightarrow> string \<Rightarrow> bool" where
  \<comment> \<open>\<open>\.\<close> and then the rest of a pattern\<close>
  "dot_then k s = (s \<noteq> [] \<and> hd s = CHR ''.'' \<and> k (tl s))"

definition ip_here :: "string \<Rightarrow> bool" where
  \<comment> \<open>the pattern \<open>\d+\.\d+\.\d+\.\d+\<close> at the start\<close>
  "ip_here =
     digits_then (dot_then (digits_then (dot_then (digits_then (dot_then
       (digits_then (\<lambda>_. True)))))))"

definition leading_number :: "string \<Rightarrow> bool" where
  \<comment> \<open>\<open>re.search(r'^\s*\d+', line)\<close>\<close>
  "leading_number line =
     (case dropWhile py_isspace line of [] \<Rightarrow> False | c # _ \<Rightarrow> is_digit c)"

definition count_lines :: "(string \<Rightarrow> bool) \<Rightarrow> string \<Rightarrow> json" where
  "count_lines p output = JInt (int (length (filter p (output_lines output))))"

definition raw_line_count :: "string \<Rightarrow> json" where
  "raw_line_count output = JInt (int (length (output_lines output)))"

definition parse_mac_table :: "string \<Rightarrow> json" where
  "parse_mac_table output =
     JDict [(''total_mac_entries'', count_lines (search_at mac_here) output),
            (''raw_line_count'', raw_line_count output)]"

definition parse_arp_table :: "string \<Rightarrow> json" where
  "parse_arp_table output =
     JDict [(''total_arp_entries'',
               count_lines (\<lambda>line. search_at ip_here line \<and>
                                    \<not> contains (lower line) ''incomplete'') output),
            (''raw_line_count'', raw_line_count output)]"

definition parse_vlan_brief :: "string \<Rightarrow> json" where
  "parse_vlan_brief output =
     JDict [(''total_vlans'', count_lines leading_number output),
            (''raw_line_count'', raw_line_count output)]"

definition parse_vpc_brief :: "string \<Rightarrow> json" where
  "parse_vpc_brief output =
     (let vpc_enabled = contains output ''vPC domain id'';
          vpc_status = (if contains output ''vPC status'' \<and> contains output ''up''
                        then ''up'' else ''down'')
      in JDict [(''vpc_enabled'', JBool vpc_enabled),
                (''vpc_status'', JStr (if vpc_enabled then vpc_status else ''disabled''))])"

definition parse_fabric_interfaces :: "string \<Rightarrow> json" where
  "parse_fabric_interfaces output =
     (let fabric_interfaces =
            map strip (filter (\<lambda>line. contains line ''Fabric'' \<or> contains line ''fabric'')
                         (output_lines output))
      in JDict [(''total_fabric_interfaces'', JInt (int (length fabric_interfaces))),
                (''fabric_interfaces'', JList (map JStr fabric_interfaces))])"

fun digit_runs :: "string \<Rightarrow> string \<Rightarrow> string list" where
  \<comment> \<open>\<open>re.findall(r'\d+', line)\<close>; the second argument is the current run, reversed\<close>
  "digit_runs [] run = (if run = [] then [] else [rev run])"
| "digit_runs (c # cs) run =
     (if is_digit c then digit_runs cs (c # run)
      else if run = [] then digit_runs cs []
      else rev run # digit_runs cs [])"

definition decimal_value :: "string \<Rightarrow> int" where
  \<comment> \<open>\<open>int(s)\<close> for a run of digits\<close>
  "decimal_value s = int (foldl (\<lambda>acc c. acc * 10 + digit_val c) 0 s)"

definition total_endpoints_of :: "string list \<Rightarrow> int" where
  \<comment> \<open>the first line with \<open>Total\<close> and \<open>endpoint\<close> decides: its last number, or 0\<close>
  "total_endpoints_of ls =
     (case filter (\<lambda>line. contains line ''Total'' \<and> contains (lower line) ''endpoint'') ls of
        [] \<Rightarrow> 0
      | line # _ \<Rightarrow>
          (case digit_runs line [] of
             [] \<Rightarrow> 0
           | n # ns \<Rightarrow> decimal_value (last (n # ns))))"

definition parse_endpoint_summary :: "string \<Rightarrow> json" where
  "parse_endpoint_summary output =
     JDict [(''total_endpoints'', JInt (total_endpoints_of (output_lines output))),
            (''raw_line_count'', raw_line_count output)]"

definition parse_bd_summary :: "string \<Rightarrow> json" where
  "parse_bd_summary output =
     JDict [(''bridge_domain_count'', JInt (max 0 (int (length (output_lines output)) - 5))),
            (''raw_line_count'', raw_line_count output)]"

definition process_command_output :: "string \<Rightarrow> string \<Rightarrow> json" where
  \<comment> \<open>no parser raises on a string, so the \<open>except\<close> branch of the caller is never
      taken and the model leaves it out (the one exception of CPython, \<open>int\<close> of a run
      of more digits than its conversion limit allows, lies outside the model)\<close>
  "process_command_output data_type raw_output =
     (if data_type = ''interfaces'' then parse_interface_status raw_output
      else if data_type = ''port_channels'' then parse_port_channel_summary raw_output
      else if data_type = ''mac_table'' then parse_mac_table raw_output
      else if data_type = ''arp_table'' then parse_arp_table raw_output
      else if data_type = ''vlans'' then parse_vlan_brief raw_output
      else if data_type = ''vpc'' then parse_vpc_brief raw_output
      else if data_type = ''fabric_interfaces'' then parse_fabric_interfaces raw_output
      else if data_type = ''endpoints'' then parse_endpoint_summary raw_output
      else if data_type = ''bridge_domains'' then parse_bd_summary raw_output
      else JDict [(''line_count'', raw_line_count raw_output),
                  (''sample_lines'', JList (map JStr (take 5 (output_lines raw_output))))])"

paragraph \<open>collect\<close>

definition device_info_json :: "device_info \<Rightarrow> json" where
  "device_info_json device =
     JDict [(''name'', JStr (name device)),
            (''hostname'', JStr (hostname device)),
            (''node_id'', (case node_id device of None \<Rightarrow> JNull | Some n \<Rightarrow> JInt n)),
            (''device_type'', JStr (device_type device))]"

definition process_command ::
  "device_info \<Rightarrow> (string \<times> string) list \<Rightarrow> string \<times> command_config
     \<Rightarrow> base_collector \<times> py_dict \<Rightarrow> base_collector \<times> py_dict" where
  \<comment> \<open>the body of the loop over the commands\<close>
  "process_command device results item st =
     (case item of (data_type, cmd_config) \<Rightarrow>
      case st of (c, leaf_data) \<Rightarrow>
        (case map_of results (cmd_command cmd_config) of
           Some (o1 # output) \<Rightarrow>
             (c, dict_set leaf_data data_type
                   (JDict [(''command'', JStr (cmd_command cmd_config)),
                           (''description'', JStr (cmd_description cmd_config)),
                           (''raw_output'', JStr (o1 # output)),
                           (''processed_data'',
                              process_command_output data_type (o1 # output))]))
         | _ \<Rightarrow>
             (add_error (''No output for '' @ data_type @ '' command on '' @ name device) c,
              dict_set leaf_data data_type
                (JDict [(''command'', JStr (cmd_command cmd_config)),
                        (''description'', JStr (cmd_description cmd_config)),
                        (''error'', JStr ''No command output'')]))))"

fun process_commands ::
  "device_info \<Rightarrow> (string \<times> string) list \<Rightarrow> (string \<times> command_config) list
     \<Rightarrow> base_collector \<times> py_dict \<Rightarrow> base_collector \<times> py_dict" where
  \<comment> \<open>\<open>for data_type, cmd_config in self.LEAF_COMMANDS.items()\<close>\<close>
  "process_commands device results [] st = st"
| "process_commands device results (item # rest) st =
     process_commands device results rest (process_command device results item st)"

definition failed_collection :: "py_dict \<Rightarrow> string \<Rightarrow> error + bool" where
  \<comment> \<open>\<open>collection not in data or 'error' in data[collection]\<close>\<close>
  "failed_collection d collection =
     (case map_of d collection of
        None \<Rightarrow> Inr True
      | Some entry \<Rightarrow> py_in ''error'' entry)"

definition validate_leaf_data ::
  "py_dict \<Rightarrow> device_info \<Rightarrow> base_collector \<Rightarrow> error + base_collector" where
  \<comment> \<open>the loop over \<open>['interfaces', 'fabric_interfaces']\<close>, unrolled, and the check of
      the interface count\<close>
  "validate_leaf_data d device c =
     ebind (failed_collection d ''interfaces'') (\<lambda>f1.
     let c1 = (if f1 then add_error (''Critical: Failed to collect interfaces from '' @
                                      name device) c
               else c) in
     ebind (failed_collection d ''fabric_interfaces'') (\<lambda>f2.
     let c2 = (if f2 then add_error (''Critical: Failed to collect fabric_interfaces from '' @
                                      name device) c1
               else c1) in
     (case map_of d ''interfaces'' of
        None \<Rightarrow> Inr c2
      | Some entry \<Rightarrow>
          ebind (py_in ''processed_data'' entry) (\<lambda>has_processed.
            if has_processed
            then ebind (py_getitem entry ''processed_data'') (\<lambda>interface_data.
                 ebind (py_get interface_data ''total_interfaces'' (JInt 0)) (\<lambda>n.
                   if py_eq_zero n
                   then Inr (add_error (''Warning: No interfaces found on '' @ name device) c2)
                   else ebind (py_gt_int n 100) (\<lambda>large. Inr c2)))
            else Inr c2))))"

definition leaf_collect ::
  "environment \<Rightarrow> int \<Rightarrow> int \<Rightarrow> (string \<times> command_config) list \<Rightarrow> fabric_client
     \<Rightarrow> device_info \<Rightarrow> base_collector
     \<Rightarrow> error + collection_result \<times> base_collector \<times> fabric_client" where
  \<comment> \<open>\<open>LeafCollector.collect\<close> over a table of commands; the fabric client comes back
      with the session it may have opened\<close>
  "leaf_collect env t_start t_end table fc device self =
     (let c0 = start_collection t_start self in
      case connect_to_device env fc device of
        (None, fc1) \<Rightarrow>
          (let c1 = add_error (''Failed to connect to leaf '' @ name device) c0
           in ebind (end_collection t_end c1 []) (\<lambda>r. Inr (r, c1, fc1)))
      | (Some nxos, fc1) \<Rightarrow>
          (let leaf_data = [(''device_info'', device_info_json device)];
               results = execute_commands env nxos (map (\<lambda>(k, cfg). cmd_command cfg) table) []
           in case process_commands device results table (c0, leaf_data) of
                (c1, leaf_data1) \<Rightarrow>
                  ebind (validate_leaf_data leaf_data1 device c1) (\<lambda>c2.
                  ebind (end_collection t_end c2 leaf_data1) (\<lambda>r. Inr (r, c2, fc1)))))"


section \<open>Snapshot manager\<close>

subsection \<open>The overall summary and its health assessment\<close>

text \<open>
  \<open>create_overall_summary\<close> writes \<open>snapshot_summary.txt\<close>. The embedding returns what
  the file says: one line per collection, the total, the status and the recommendation.
  An exception raised in the loop leaves the function before the total is written.
\<close>

datatype collection_line =
    Completed          \<comment> \<open>no error\<close>
  | Completed_errors nat  \<comment> \<open>the number of errors of the collection\<close>
  | Failed             \<comment> \<open>the collection is missing or empty\<close>

datatype fabric_status = HEALTHY | WARNING | CRITICAL

datatype recommendation = Proceed | Review_errors

record overall_summary =
  collections_completed :: "(string \<times> collection_line) list"
  total_errors :: nat
  status :: fabric_status
  recommendations :: recommendation

fun summary_loop ::
  "py_dict \<Rightarrow> nat \<Rightarrow> (string \<times> collection_line) list
     \<Rightarrow> error + nat \<times> (string \<times> collection_line) list" where
  \<comment> \<open>\<open>for collection_type, coll in collections.items()\<close>, with the running n_errors\<close>
  "summary_loop [] n_errors out = Inr (n_errors, out)"
| "summary_loop ((collection_type, coll) # rest) n_errors out =
     (if truthy coll
      then ebind (py_get coll ''errors'' (JList [])) (\<lambda>errs.
           ebind (py_len errs) (\<lambda>error_count.
             summary_loop rest (n_errors + error_count)
               (out @ [(collection_type,
                        if error_count = 0 then Completed else Completed_errors error_count)])))
      else summary_loop rest (n_errors + 1) (out @ [(collection_type, Failed)]))"

definition create_overall_summary :: "py_dict \<Rightarrow> error + overall_summary" where
  "create_overall_summary collections =
     ebind (summary_loop collections 0 []) (\<lambda>(n_errors, out).
       Inr \<lparr>collections_completed = out,
            total_errors = n_errors,
            status = (if n_errors = 0 then HEALTHY
                      else if n_errors \<le> 3 then WARNING
                      else CRITICAL),
            recommendations = (if n_errors = 0 then Proceed else Review_errors)\<rparr>)"

subsection \<open>Listing snapshots\<close>

text \<open>
  The snapshots directory as \<open>iterdir()\<close> yields it: each entry with its name, whether it
  is a directory, the \<open>st_mtime\<close> of its \<open>stat()\<close> as \<open>datetime.fromtimestamp\<close> reads
  it (microseconds), and the data files \<open>glob('*_data.json')\<close> finds in it. The time
  the entry was created is part of the file system's history and no field that
  \<open>list_snapshots\<close> reads; the model carries it to state what the listing is sorted by.
\<close>

record dir_entry =
  entry_name :: string
  is_dir :: bool
  created_at :: int   \<comment> \<open>when \<open>mkdir\<close> made the entry\<close>
  st_mtime :: int     \<comment> \<open>when an entry was last added to or removed from it\<close>
  data_files :: "string list"

record snapshot_info =
  sn_name :: string
  sn_path :: string
  sn_created :: int
  sn_files :: "string list"

definition path_join :: "string \<Rightarrow> string \<Rightarrow> string" where
  \<comment> \<open>\<open>str(snapshots_dir / name)\<close>\<close>
  "path_join d n = d @ ''/'' @ n"

definition snapshot_info_of :: "string \<Rightarrow> dir_entry \<Rightarrow> snapshot_info" where
  "snapshot_info_of snapshots_dir e =
     \<lparr>sn_name = entry_name e,
      sn_path = path_join snapshots_dir (entry_name e),
      sn_created = st_mtime e,
      sn_files = data_files e\<rparr>"

definition sort_created_reverse :: "snapshot_info list \<Rightarrow> snapshot_info list" where
  \<comment> \<open>\<open>snapshots.sort(key=lambda x: x['created'], reverse=True)\<close>: descending; the
      sort is stable, so entries with equal keys keep the order they had\<close>
  "sort_created_reverse xs = sort_key (\<lambda>x. - sn_created x) xs"

definition list_snapshots :: "string \<Rightarrow> dir_entry list \<Rightarrow> snapshot_info list" where
  "list_snapshots snapshots_dir entries =
     sort_created_reverse (map (snapshot_info_of snapshots_dir) (filter is_dir entries))"

definition find_baseline_snapshot :: "string \<Rightarrow> dir_entry list \<Rightarrow> string option" where
  "find_baseline_snapshot snapshots_dir entries =
     (case list_snapshots snapshots_dir entries of
        [] \<Rightarrow> None
      | baseline # _ \<Rightarrow> Some (sn_path baseline))"

subsection \<open>Comparing two snapshots\<close>

text \<open>
  The lines of a comparison are formatted strings; the embedding keeps what each line
  says. \<open>Count_changed key b c\<close> is the line \<open>key count: b -> c\<close>.
\<close>

datatype change =
    Errors_increased nat nat
  | Errors_decreased nat nat
  | Missing_data string
  | Count_changed string json json
  | New_data string

fun first_total :: "py_dict \<Rightarrow> json" where
  \<comment> \<open>\<open>for key, value in processed.items()\<close>: the first integer under a key with
      \<open>total\<close> in its lower-cased name; \<open>JNull\<close> when the loop ends\<close>
  "first_total [] = JNull"
| "first_total ((key, v) # rest) =
     (if contains (lower key) ''total'' \<and> isinstance_int v then v else first_total rest)"

definition extract_count :: "json \<Rightarrow> json" where
  \<comment> \<open>\<open>JNull\<close> is \<open>None\<close>\<close>
  "extract_count d =
     (case d of
        JDict kvs \<Rightarrow>
          (case map_of kvs ''count'' of
             Some n \<Rightarrow> n
           | None \<Rightarrow>
               (case map_of kvs ''processed_data'' of
                  Some (JDict processed) \<Rightarrow> first_total processed
                | _ \<Rightarrow> JNull))
      | _ \<Rightarrow> JNull)"

definition is_number :: "json \<Rightarrow> bool" where
  "is_number x = (case x of JInt _ \<Rightarrow> True | JBool _ \<Rightarrow> True | JFloat _ \<Rightarrow> True | _ \<Rightarrow> False)"

definition int_value :: "json \<Rightarrow> int" where
  \<comment> \<open>the value of an integer or a boolean in arithmetic\<close>
  "int_value x = (case x of JInt n \<Rightarrow> n | JBool b \<Rightarrow> (if b then 1 else 0) | _ \<Rightarrow> 0)"

definition count_differs :: "json \<Rightarrow> json \<Rightarrow> error + bool" where
  \<comment> \<open>\<open>abs(current_count - baseline_count) > 0\<close>: subtraction is for numbers\<close>
  "count_differs current_count baseline_count =
     (if \<not> is_number current_count \<or> \<not> is_number baseline_count then Inl TypeError
      else if \<not> isinstance_int current_count \<or> \<not> isinstance_int baseline_count
           then Inl Float_arithmetic
      else Inr (abs (int_value current_count - int_value baseline_count) > 0))"

definition compare_key :: "py_dict \<Rightarrow> json \<Rightarrow> string \<Rightarrow> error + change list" where
  \<comment> \<open>the body of \<open>for key in baseline_data.keys()\<close>: the changes it appends\<close>
  "compare_key baseline_data current_data key =
     ebind (py_in key current_data) (\<lambda>present.
       if \<not> present then Inr [Missing_data key]
       else ebind (py_getitem (JDict baseline_data) key) (\<lambda>baseline_entry.
            ebind (py_getitem current_data key) (\<lambda>current_entry.
              let baseline_count = extract_count baseline_entry;
                  current_count = extract_count current_entry
              in if baseline_count \<noteq> JNull \<and> current_count \<noteq> JNull
                 then ebind (count_differs current_count baseline_count) (\<lambda>differs.
                        if differs then Inr [Count_changed key baseline_count current_count]
                        else Inr [])
                 else Inr [])))"

fun compare_keys :: "py_dict \<Rightarrow> json \<Rightarrow> string list \<Rightarrow> error + change list" where
  "compare_keys baseline_data current_data [] = Inr []"
| "compare_keys baseline_data current_data (key # rest) =
     ebind (compare_key baseline_data current_data key) (\<lambda>cs.
     ebind (compare_keys baseline_data current_data rest) (\<lambda>ds. Inr (cs @ ds)))"

definition compare_collections :: "json \<Rightarrow> json \<Rightarrow> error + change list" where
  "compare_collections baseline current =
     ebind (py_get baseline ''errors'' (JList [])) (\<lambda>be.
     ebind (py_len be) (\<lambda>baseline_errors.
     ebind (py_get current ''errors'' (JList [])) (\<lambda>ce.
     ebind (py_len ce) (\<lambda>current_errors.
     let error_changes =
           (if current_errors > baseline_errors
            then [Errors_increased baseline_errors current_errors]
            else if current_errors < baseline_errors
            then [Errors_decreased baseline_errors current_errors]
            else []) in
     ebind (py_get baseline ''data'' (JDict [])) (\<lambda>baseline_data.
     ebind (py_get current ''data'' (JDict [])) (\<lambda>current_data.
     (case baseline_data of
        JDict baseline_items \<Rightarrow>
          ebind (compare_keys baseline_items current_data (map fst baseline_items)) (\<lambda>cs.
          ebind (py_keys current_data) (\<lambda>current_keys.
            Inr (error_changes @ cs @
                 map New_data (filter (\<lambda>key. key \<notin> set (map fst baseline_items))
                                 current_keys))))
      | _ \<Rightarrow> Inl AttributeError)))))))"

datatype report_section =
    No_data                 \<comment> \<open>no data in either snapshot\<close>
  | New_collection          \<comment> \<open>the collection is new in the current snapshot\<close>
  | Collection_missing      \<comment> \<open>the collection is missing in the current snapshot\<close>
  | Changes "change list"   \<comment> \<open>one line per change; the empty list is the line
                                 that no significant change was detected\<close>

definition snapshot_get :: "py_dict \<Rightarrow> string \<Rightarrow> json" where
  \<comment> \<open>\<open>snapshot_data.get(collection_type)\<close>\<close>
  "snapshot_get snapshot_data collection_type =
     (case map_of snapshot_data collection_type of None \<Rightarrow> JNull | Some d \<Rightarrow> d)"

definition compare_section :: "py_dict \<Rightarrow> py_dict \<Rightarrow> string \<Rightarrow> error + report_section" where
  "compare_section baseline_data current_data collection_type =
     (let baseline_collection = snapshot_get baseline_data collection_type;
          current_collection = snapshot_get current_data collection_type
      in if \<not> truthy baseline_collection \<and> \<not> truthy current_collection then Inr No_data
         else if \<not> truthy baseline_collection then Inr New_collection
         else if \<not> truthy current_collection then Inr Collection_missing
         else ebind (compare_collections baseline_collection current_collection)
                (\<lambda>changes. Inr (Changes changes)))"

fun compare_sections ::
  "py_dict \<Rightarrow> py_dict \<Rightarrow> string list \<Rightarrow> error + (string \<times> report_section) list" where
  "compare_sections baseline_data current_data [] = Inr []"
| "compare_sections baseline_data current_data (collection_type # rest) =
     ebind (compare_section baseline_data current_data collection_type) (\<lambda>sec.
     ebind (compare_sections baseline_data current_data rest) (\<lambda>secs.
       Inr ((collection_type, sec) # secs)))"

definition create_comparison_report ::
  "py_dict \<Rightarrow> py_dict \<Rightarrow> error + (string \<times> report_section) list" where
  \<comment> \<open>the arguments are what \<open>load_snapshot_data\<close> returns for the two paths (a file that
      does not load is \<open>JNull\<close>); the result is the sections of the report, in the order
      of \<open>sorted(all_collections)\<close>\<close>
  "create_comparison_report baseline_data current_data =
     compare_sections baseline_data current_data
       (sort (remdups (map fst baseline_data @ map fst current_data)))"

section \<open>What a host line says\<close>



section \<open>What the interface parser counts\<close>

definition parsed_data_lines :: "string \<Rightarrow> string list" where
  \<comment> \<open>the lines of the output that are parsed: they start neither with \<open>Port\<close> nor
      with \<open>----\<close> and split into at least 4 fields\<close>
  "parsed_data_lines output =
     filter (\<lambda>line. \<not> startswith line ''Port'' \<and> \<not> startswith line ''----'' \<and>
                     length (split_ws line) \<ge> 4)
       (output_lines output)"

definition interface_of_line :: "string \<Rightarrow> interface_entry" where
  \<comment> \<open>the entry made of the first four fields of a line\<close>
  "interface_of_line line =
     (let parts = split_ws line
      in \<lparr>ie_interface = parts ! 0, ie_status = parts ! 1,
          ie_vlan = parts ! 2, ie_duplex = parts ! 3\<rparr>)"

definition status_connected :: "string \<Rightarrow> bool" where
  \<comment> \<open>the status field, the second of the line, contains \<open>connected\<close> in any case\<close>
  "status_connected line = contains (lower (split_ws line ! 1)) ''connected''"

section \<open>Collection results as the snapshot store holds them\<close>

text \<open>
  The snapshot manager takes any JSON value for a collection. A collection result as
  \<open>end_collection\<close> builds it has a list under \<open>errors\<close> and a dictionary under
  \<open>data\<close>; where a metric entry carries a record count, the count is an integer (the
  collectors store \<open>len(...)\<close> there).
\<close>

definition is_metric_entry :: "json \<Rightarrow> bool" where
  "is_metric_entry m =
     (case m of
        JDict entry \<Rightarrow>
          (case map_of entry ''count'' of
             None \<Rightarrow> True
           | Some (JInt n) \<Rightarrow> True
           | Some _ \<Rightarrow> False)
      | _ \<Rightarrow> True)"

definition is_collection_result :: "json \<Rightarrow> bool" where
  "is_collection_result d =
     (case d of
        JDict kvs \<Rightarrow>
          (case map_of kvs ''errors'' of Some (JList es) \<Rightarrow> True | _ \<Rightarrow> False) \<and>
          (case map_of kvs ''data'' of
             Some (JDict ms) \<Rightarrow> list_all (\<lambda>(k, m). is_metric_entry m) ms
           | _ \<Rightarrow> False)
      | _ \<Rightarrow> False)"

definition recorded_errors :: "json \<Rightarrow> json list" where
  \<comment> \<open>the error list of a collection result\<close>
  "recorded_errors d =
     (case d of
        JDict kvs \<Rightarrow> (case map_of kvs ''errors'' of Some (JList es) \<Rightarrow> es | _ \<Rightarrow> [])
      | _ \<Rightarrow> [])"

definition is_snapshot :: "py_dict \<Rightarrow> bool" where
  \<comment> \<open>what \<open>load_snapshot_data\<close> returns for a snapshot of the store: under every
      collection key a collection result, or \<open>None\<close> for a file that did not load\<close>
  "is_snapshot s = list_all (\<lambda>(k, d). d = JNull \<or> is_collection_result d) s"

section \<open>The count heuristic in the words of the specification\<close>

definition first_total_field :: "json \<Rightarrow> (string \<times> json) option" where
  \<comment> \<open>Follows the specification: the first field of the normalized payload of a metric
      entry (its \<open>processed_data\<close>) whose name contains \<open>total\<close>.\<close>
  "first_total_field entry =
     (case entry of
        JDict kvs \<Rightarrow>
          (case map_of kvs ''processed_data'' of
             Some (JDict processed) \<Rightarrow> find (\<lambda>(k, v). contains k ''total'') processed
           | _ \<Rightarrow> None)
      | _ \<Rightarrow> None)"

definition is_total_count :: "string \<times> json \<Rightarrow> bool" where
  \<comment> \<open>what the code looks for in \<open>processed_data\<close>: an integer under a key whose
      lower-cased name contains \<open>total\<close>\<close>
  "is_total_count kv = (contains (lower (fst kv)) ''total'' \<and> isinstance_int (snd kv))"

section \<open>What a collection records for one metric\<close>









definition is_validation_message :: "string \<Rightarrow> bool" where
  \<comment> \<open>the messages that the validation of a collector appends\<close>
  "is_validation_message m = (startswith m ''Critical: '' \<or> startswith m ''Warning: '')"




section \<open>A small fabric for examples\<close>

definition login_ok :: json where
  \<comment> \<open>a login response that carries a token\<close>
  "login_ok =
     JDict [(''imdata'',
             JList [JDict [(''aaaLogin'',
                            JDict [(''attributes'', JDict [(''token'', JStr ''T0k3n'')])])]])]"

definition three_records :: json where
  "three_records = JDict [(''imdata'', JList [JDict [], JDict [], JDict []])]"

definition controller :: "string \<Rightarrow> string \<Rightarrow> int \<Rightarrow> device_info" where
  "controller nm host prio =
     \<lparr>name = nm, hostname = host, username = [], password = [], device_type = ''apic'',
      node_id = None, priority = Some prio, port = 443\<rparr>"

definition leaf1 :: device_info where
  "leaf1 = \<lparr>name = ''leaf1'', hostname = ''10.0.1.1'', username = [], password = [],
            device_type = ''leaf'', node_id = Some 201, priority = Some 1, port = 22\<rparr>"

definition example_env :: environment where
  \<comment> \<open>the controller at 10.0.0.1 is unreachable; every other controller logs in; the
      health endpoint fails and every other endpoint returns three records; every switch
      accepts the connection; \<open>show interface status\<close> fails and every other command
      prints a line\<close>
  "example_env =
     \<lparr>post_login = (\<lambda>host. if host = ''10.0.0.1'' then Request_exception
                            else Response login_ok),
      http_get = (\<lambda>host endpoint params.
                    if endpoint = ''/api/class/healthInst.json'' then Request_exception
                    else Response three_records),
      ssh_connect = (\<lambda>host. True),
      exec_command = (\<lambda>host cmd. if cmd = ''show interface status'' then None
                                  else Some ''Eth1/49 fabric up''),
      exception_text = (\<lambda>e. ''exception'')\<rparr>"

definition all_up_env :: environment where
  \<comment> \<open>as \<open>example_env\<close>, with every controller reachable\<close>
  "all_up_env = example_env\<lparr>post_login := (\<lambda>host. Response login_ok)\<rparr>"


definition session :: "string \<Rightarrow> apic_client" where
  \<comment> \<open>the client of a controller after a login that returned the token of \<open>login_ok\<close>\<close>
  "session host =
     \<lparr>apic_hostname = host, auth_token = Some (JStr ''T0k3n''), is_authenticated = True\<rparr>"

definition cluster_health_entry :: "int \<Rightarrow> int \<Rightarrow> json" where
  \<comment> \<open>a metric entry of the controller collector: \<open>n\<close> records came back, \<open>m\<close> of
      them cluster nodes\<close>
  "cluster_health_entry n m =
     JDict [(''endpoint'', JStr ''/api/class/infraWiNode.json''),
            (''count'', JInt n),
            (''processed_data'',
               JDict [(''total_cluster_nodes'', JInt m), (''healthy_nodes'', JInt m)])]"

definition apic_collection :: "int \<Rightarrow> int \<Rightarrow> json" where
  \<comment> \<open>a collection of the controller collector, cut down to one metric\<close>
  "apic_collection n m =
     JDict [(''collector'', JStr ''ApicCollector''),
            (''errors'', JList []),
            (''data'', JDict [(''cluster_health'', cluster_health_entry n m)])]"

definition topology_entry :: "int \<Rightarrow> json" where
  \<comment> \<open>a metric entry of the fabric collector with \<open>n\<close> records\<close>
  "topology_entry n =
     JDict [(''endpoint'', JStr ''/api/class/fabricNode.json''),
            (''count'', JInt n),
            (''data'', JList [])]"

definition fabric_collection :: "int \<Rightarrow> json" where
  \<comment> \<open>a collection of the fabric collector, cut down to one metric\<close>
  "fabric_collection n =
     JDict [(''collector'', JStr ''FabricCollector''),
            (''errors'', JList []),
            (''data'', JDict [(''topology'', topology_entry n)])]"

definition leaf_collection :: "int \<Rightarrow> json" where
  \<comment> \<open>a collection of the leaf collector, cut down to one metric with \<open>n\<close> interfaces\<close>
  "leaf_collection n =
     JDict [(''collector'', JStr ''LeafCollector''),
            (''errors'', JList [JStr ''Warning: No interfaces found on leaf1'']),
            (''data'',
               JDict [(''device_info'', JDict [(''name'', JStr ''leaf1'')]),
                      (''interfaces'',
                         JDict [(''command'', JStr ''show interface status''),
                                (''processed_data'',
                                   JDict [(''total_interfaces'', JInt n),
                                          (''up_interfaces'', JInt 0),
                                          (''interfaces'', JList [])])])])]"

definition connected_client :: fabric_client where
  \<comment> \<open>a fabric client whose primary session is the controller at 10.0.0.2\<close>
  "connected_client =
     \<lparr>apic_devices = [controller ''apic1'' ''10.0.0.1'' 1, controller ''apic2'' ''10.0.0.2'' 2],
      primary_apic = Some (session ''10.0.0.2''),
      device_clients = []\<rparr>"

definition five_endpoints :: "(string \<times> endpoint_config) list" where
  \<comment> \<open>a table of five metrics: topology, links, faults, health and discovery\<close>
  "five_endpoints = take 5 FABRIC_ENDPOINTS"

definition five_commands :: "(string \<times> command_config) list" where
  \<comment> \<open>a table of five metrics: interfaces, port_channels, vlans, vpc, fabric_interfaces\<close>
  "five_commands =
     filter (\<lambda>(k, cfg). k \<in> set [''interfaces'', ''port_channels'', ''vlans'', ''vpc'',
                                    ''fabric_interfaces''])
       LEAF_COMMANDS"

definition vlan_down_env :: environment where
  \<comment> \<open>as \<open>example_env\<close>, but \<open>show vlan brief\<close> is the command that fails and every
      other command prints one interface line\<close>
  "vlan_down_env =
     example_env\<lparr>exec_command := (\<lambda>host cmd. if cmd = ''show vlan brief'' then None
                                          else Some ''Eth1/1 connected 10 full'')\<rparr>"


section \<open>Properties of the overall summary\<close>

lemma truthy_collection_result: "is_collection_result d \<Longrightarrow> truthy d"
  by (auto simp: is_collection_result_def truthy_def split: json.splits option.splits)

lemma errors_collection_result:
  "is_collection_result d \<Longrightarrow>
     ebind (py_get d ''errors'' (JList [])) py_len = Inr (length (recorded_errors d))"
  by (auto simp: is_collection_result_def recorded_errors_def py_get_def py_len_def ebind_def
      split: json.splits option.splits)

lemma summary_loop_total:
  "list_all (\<lambda>(k, d). is_collection_result d) cs \<Longrightarrow>
     \<exists>out. summary_loop cs n acc =
       Inr (n + sum_list (map (\<lambda>(k, d). length (recorded_errors d)) cs), out)"
proof (induction cs arbitrary: n acc)
  case Nil
  then show ?case by simp
next
  case (Cons a cs)
  obtain k d where a: "a = (k, d)" by (cases a)
  from Cons.prems a have d: "is_collection_result d"
    and rest: "list_all (\<lambda>(k, d). is_collection_result d) cs" by simp_all
  have len: "ebind (py_get d ''errors'' (JList [])) py_len = Inr (length (recorded_errors d))"
    by (rule errors_collection_result [OF d])
  then obtain errs where e1: "py_get d ''errors'' (JList []) = Inr errs"
    and e2: "py_len errs = Inr (length (recorded_errors d))"
    by (auto simp: ebind_def split: sum.splits)
  from Cons.IH [OF rest] obtain out where
    "summary_loop cs (n + length (recorded_errors d))
       (acc @ [(k, if length (recorded_errors d) = 0 then Completed
                   else Completed_errors (length (recorded_errors d)))]) =
     Inr (n + length (recorded_errors d) +
            sum_list (map (\<lambda>(k, d). length (recorded_errors d)) cs), out)"
    by blast
  then show ?case
    using a truthy_collection_result [OF d] e1 e2 by (simp add: ebind_def add.assoc)
qed

text \<open>
  Claim C2. For every map of collection results, \<open>create_overall_summary\<close> returns a
  summary whose total is the number of errors recorded over all the collections, and the
  status it writes is decided by that total alone: HEALTHY exactly at 0, WARNING exactly
  from 1 to 3, CRITICAL exactly from 4 on.
\<close>

theorem create_overall_summary_classifies:
  assumes "list_all (\<lambda>(k, d). is_collection_result d) collections"
  shows "\<exists>s. create_overall_summary collections = Inr s
           \<and> total_errors s = sum_list (map (\<lambda>(k, d). length (recorded_errors d)) collections)
           \<and> (status s = HEALTHY \<longleftrightarrow> total_errors s = 0)
           \<and> (status s = WARNING \<longleftrightarrow> 1 \<le> total_errors s \<and> total_errors s \<le> 3)
           \<and> (status s = CRITICAL \<longleftrightarrow> 4 \<le> total_errors s)"
proof -
  define t where "t = sum_list (map (\<lambda>(k, d). length (recorded_errors d)) collections)"
  from summary_loop_total [OF assms, of 0 "[]"] obtain out where
    "summary_loop collections 0 [] = Inr (t, out)"
    unfolding t_def by auto
  then have "create_overall_summary collections =
      Inr \<lparr>collections_completed = out, total_errors = t,
           status = (if t = 0 then HEALTHY else if t \<le> 3 then WARNING else CRITICAL),
           recommendations = (if t = 0 then Proceed else Review_errors)\<rparr>"
    by (simp add: create_overall_summary_def ebind_def)
  then show ?thesis
    unfolding t_def [symmetric] by auto
qed


theorem create_overall_summary_classifies_witness:
  "\<exists>s. create_overall_summary
         [(''fabric'', JDict [(''errors'', JList [JStr ''a'', JStr ''b'', JStr ''c'']),
                             (''data'', JDict [])]),
          (''leaf_leaf1'', JDict [(''errors'', JList [JStr ''d'']),
                                 (''data'', JDict [(''vlans'', JDict [(''count'', JInt 2)])])])]
        = Inr s
      \<and> total_errors s = 4 \<and> status s = CRITICAL"
proof -
  let ?cs = "[(''fabric'', JDict [(''errors'', JList [JStr ''a'', JStr ''b'', JStr ''c'']),
                                 (''data'', JDict [])]),
              (''leaf_leaf1'', JDict [(''errors'', JList [JStr ''d'']),
                                     (''data'', JDict [(''vlans'', JDict [(''count'', JInt 2)])])])]"
  have wf: "list_all (\<lambda>(k, d). is_collection_result d) ?cs"
    by (simp add: is_collection_result_def is_metric_entry_def)
  have n: "sum_list (map (\<lambda>(k, d). length (recorded_errors d)) ?cs) = 4"
    by (simp add: recorded_errors_def)
  from create_overall_summary_classifies [OF wf] obtain s where
    s: "create_overall_summary ?cs = Inr s"
       "total_errors s = sum_list (map (\<lambda>(k, d). length (recorded_errors d)) ?cs)"
       "status s = CRITICAL \<longleftrightarrow> 4 \<le> total_errors s"
    by blast
  from s(2) n have "total_errors s = 4" by simp
  with s(1) s(3) show ?thesis by (intro exI [of _ s]) simp
qed

lemma summary_three_errors_warning:
  "map_sum id status
     (create_overall_summary
        [(''fabric'', JDict [(''errors'', JList [JStr ''a'', JStr ''b'', JStr ''c''])])])
   = Inr WARNING"
  by (simp add: create_overall_summary_def ebind_def truthy_def py_get_def py_len_def)

lemma summary_no_error_healthy:
  "map_sum id status
     (create_overall_summary [(''fabric'', JDict [(''errors'', JList [])])])
   = Inr HEALTHY"
  by (simp add: create_overall_summary_def ebind_def truthy_def py_get_def py_len_def)

section \<open>Properties of the interface status parser\<close>

lemma split_ws_from_blank:
  "list_all py_isspace s \<Longrightarrow> split_ws_from s [] = []"
  by (induction s) auto

lemma strip_empty_blank: "strip s = [] \<Longrightarrow> list_all py_isspace s"
proof -
  assume "strip s = []"
  then have "dropWhile py_isspace (rev (dropWhile py_isspace s)) = []"
    by (simp add: strip_def)
  then have "\<forall>c \<in> set (rev (dropWhile py_isspace s)). py_isspace c"
    by (simp add: dropWhile_eq_Nil_conv)
  then have a: "\<forall>c \<in> set (dropWhile py_isspace s). py_isspace c" by simp
  have "dropWhile py_isspace s = []"
  proof (rule ccontr)
    assume ne: "dropWhile py_isspace s \<noteq> []"
    then have "\<not> py_isspace (hd (dropWhile py_isspace s))" by (rule hd_dropWhile)
    moreover from ne have "hd (dropWhile py_isspace s) \<in> set (dropWhile py_isspace s)" by simp
    ultimately show False using a by blast
  qed
  then show ?thesis by (simp add: dropWhile_eq_Nil_conv list_all_iff)
qed

lemma blank_no_fields: "strip line = [] \<Longrightarrow> split_ws line = []"
  by (simp add: split_ws_def split_ws_from_blank strip_empty_blank)

lemma parse_lines_filter:
  "parse_lines ls acc = acc @ map interface_of_line (filter (\<lambda>line. length (split_ws line) \<ge> 4) ls)"
proof (induction ls arbitrary: acc)
  case Nil
  then show ?case by simp
next
  case (Cons line ls)
  show ?case
  proof (cases "strip line = []")
    case True
    then have "split_ws line = []" by (rule blank_no_fields)
    with True Cons.IH show ?thesis by simp
  next
    case False
    with Cons.IH show ?thesis by (simp add: Let_def interface_of_line_def)
  qed
qed

lemma parsed_interfaces_eq:
  "parsed_interfaces output = map interface_of_line (parsed_data_lines output)"
  by (simp add: parsed_interfaces_def parsed_data_lines_def parse_lines_filter is_data_line_def
      conj_ac)

lemma is_up_interface_of_line: "is_up (interface_of_line line) = status_connected line"
  by (simp add: is_up_def interface_of_line_def status_connected_def Let_def)

text \<open>
  Claim C10. For every output text, the result of \<open>parse_interface_status\<close> has under
  \<open>total_interfaces\<close> the number of parsed data lines (the lines that start neither with
  \<open>Port\<close> nor with \<open>----\<close> and split into at least 4 fields) and under
  \<open>up_interfaces\<close> the number of those whose status field contains \<open>connected\<close> in any
  case; hence \<open>0 \<le> up_interfaces \<le> total_interfaces\<close>.
\<close>

theorem parse_interface_status_counts:
  "parse_interface_status output =
     JDict [(''total_interfaces'', JInt (int (length (parsed_data_lines output)))),
            (''up_interfaces'',
               JInt (int (length (filter status_connected (parsed_data_lines output))))),
            (''interfaces'', JList (map interface_json (parsed_interfaces output)))]
   \<and> 0 \<le> int (length (filter status_connected (parsed_data_lines output)))
   \<and> int (length (filter status_connected (parsed_data_lines output)))
       \<le> int (length (parsed_data_lines output))"
  by (simp add: parse_interface_status_def parsed_interfaces_eq filter_map o_def is_up_interface_of_line)


lemma parse_interface_status_fixture:
  "parse_interface_status
     (''Port     Status     Vlan  Duplex'' @ [CHR 0x0A] @
      ''-------------------------------'' @ [CHR 0x0A] @
      ''Eth1/1   connected  10    full'' @ [CHR 0x0A] @
      ''Eth1/2   notconnec  1     auto'' @ [CHR 0x0A] @
      ''Eth1/3   Connected  trunk full'' @ [CHR 0x0A])
   = JDict [(''total_interfaces'', JInt 3), (''up_interfaces'', JInt 2),
            (''interfaces'',
               JList [JDict [(''interface'', JStr ''Eth1/1''), (''status'', JStr ''connected''),
                             (''vlan'', JStr ''10''), (''duplex'', JStr ''full'')],
                      JDict [(''interface'', JStr ''Eth1/2''), (''status'', JStr ''notconnec''),
                             (''vlan'', JStr ''1''), (''duplex'', JStr ''auto'')],
                      JDict [(''interface'', JStr ''Eth1/3''), (''status'', JStr ''Connected''),
                             (''vlan'', JStr ''trunk''), (''duplex'', JStr ''full'')]])]"
  by code_simp

section \<open>Properties of the inventory parser\<close>









lemma is_digit_char_of: "d < 10 \<Longrightarrow> is_digit (char_of (48 + d :: nat))"
proof -
  assume "d < 10"
  then have "d \<in> {0, 1, 2, 3, 4, 5, 6, 7, 8, 9}" by auto
  then show ?thesis
    by (auto simp: is_digit_def less_eq_char_def)
qed

lemma digit_val_char_of: "d < 10 \<Longrightarrow> digit_val (char_of (48 + d :: nat)) = d"
  by (simp add: digit_val_def)

lemma not_space_digit: "is_digit c \<Longrightarrow> \<not> py_isspace c"
  by (auto simp: is_digit_def py_isspace_def less_eq_char_def)

lemma digits_from_snoc:
  "digits_from xs acc f = Some m \<Longrightarrow> is_digit c \<Longrightarrow>
     digits_from (xs @ [c]) acc f = Some (m * 10 + digit_val c)"
proof (induction xs acc f rule: digits_from.induct)
  case (1 acc after_digit)
  then show ?case by (auto split: if_splits)
next
  case (2 c' cs acc after_digit)
  then show ?case
    by (cases cs) (auto split: if_splits)
qed

lemma digits_from_decimal: "digits_from (decimal n) 0 False = Some n"
proof (induction n rule: decimal.induct)
  case (1 n)
  show ?case
  proof (cases "n < 10")
    case True
    then show ?thesis
      by (subst decimal.simps) (simp add: is_digit_char_of digit_val_char_of)
  next
    case False
    then have ih: "digits_from (decimal (n div 10)) 0 False = Some (n div 10)"
      using "1.IH" by simp
    have d: "n mod 10 < 10" by simp
    have "digits_from (decimal (n div 10) @ [char_of (48 + n mod 10)]) 0 False =
            Some (n div 10 * 10 + digit_val (char_of (48 + n mod 10)))"
      by (rule digits_from_snoc [OF ih is_digit_char_of [OF d]])
    with False show ?thesis
      by (subst decimal.simps) (simp add: digit_val_char_of [OF d])
  qed
qed

lemma decimal_digits: "list_all is_digit (decimal n)"
proof (induction n rule: decimal.induct)
  case (1 n)
  show ?case
  proof (cases "n < 10")
    case True
    then show ?thesis by (subst decimal.simps) (simp add: is_digit_char_of)
  next
    case False
    with "1.IH" show ?thesis
      by (subst decimal.simps) (simp add: is_digit_char_of)
  qed
qed

lemma decimal_nonempty: "decimal n \<noteq> []"
  by (subst decimal.simps) simp

lemma strip_digits: "list_all is_digit s \<Longrightarrow> strip s = s"
proof -
  assume a: "list_all is_digit s"
  then have n: "\<forall>c \<in> set s. \<not> py_isspace c" by (auto simp: list_all_iff not_space_digit)
  have "dropWhile py_isspace s = s"
    using n by (cases s) auto
  moreover have "dropWhile py_isspace (rev s) = rev s"
    using n by (cases "rev s") (auto simp: )
  ultimately show ?thesis by (simp add: strip_def)
qed

lemma py_int_decimal: "py_int (decimal n) = Some (int n)"
proof -
  have s: "strip (decimal n) = decimal n" by (rule strip_digits [OF decimal_digits])
  obtain c cs where d: "decimal n = c # cs" using decimal_nonempty [of n] by (cases "decimal n") auto
  have "is_digit c" using decimal_digits [of n] d by simp
  then have "c \<noteq> CHR ''-''" "c \<noteq> CHR ''+''" by (auto simp: is_digit_def less_eq_char_def)
  with s d digits_from_decimal [of n] show ?thesis by (simp add: py_int_def)
qed



lemma parse_ini_host_defaults:
  "parse_ini_host \<lparr>host_name = ''spine1'', host_section = Some ''spines_pod_1'',
                    host_line = ''spine1 ansible_host=10.0.0.9 node_id=n/a''\<rparr>
   = Some \<lparr>name = ''spine1'', hostname = ''spine1'', username = [], password = [],
           device_type = ''spine'', node_id = None, priority = Some 1, port = 22\<rparr>"
  by code_simp

lemma parse_ini_host_no_section:
  "parse_ini_host \<lparr>host_name = ''leaf1'', host_section = None,
                    host_line = ''leaf1 ansible_host=10.0.0.1''\<rparr> = None"
  by code_simp

section \<open>Properties of the fabric client\<close>

lemma try_apics_failover:
  assumes "\<forall>d \<in> set before. authenticate env (new_apic_client (hostname d)) = Inr (False, new_apic_client (hostname d))"
    and "authenticate env (new_apic_client (hostname dev)) = Inr (True, apic)"
  shows "try_apics env (before @ dev # rest) fc = Inr (True, fc\<lparr>primary_apic := Some apic\<rparr>)"
  using assms by (induction before) auto

lemma authenticate_false_unchanged:
  "authenticate env c = Inr (False, c') \<Longrightarrow> c' = c"
  by (auto simp: authenticate_def split: http_outcome.splits sum.splits option.splits error.splits)

lemma authenticate_true_authenticated:
  "authenticate env c = Inr (True, c') \<Longrightarrow> is_authenticated c' \<and> apic_hostname c' = apic_hostname c"
  by (auto simp: authenticate_def split: http_outcome.splits sum.splits option.splits error.splits)

lemma try_apics_success:
  "try_apics env ds fc = Inr (True, fc') \<Longrightarrow>
     \<exists>a. primary_apic fc' = Some a \<and> is_authenticated a \<and> (\<exists>d \<in> set ds. apic_hostname a = hostname d)"
proof (induction ds)
  case Nil
  then show ?case by simp
next
  case (Cons d ds)
  show ?case
  proof (cases "authenticate env (new_apic_client (hostname d))")
    case (Inl e)
    with Cons.prems show ?thesis by simp
  next
    case (Inr r)
    obtain ok apic where r: "r = (ok, apic)" by (cases r)
    show ?thesis
    proof (cases ok)
      case True
      with Inr r authenticate_true_authenticated [of env "new_apic_client (hostname d)" apic]
      have "is_authenticated apic" "apic_hostname apic = hostname d"
        by (simp_all add: new_apic_client_def)
      with Cons.prems Inr r True show ?thesis by auto
    next
      case False
      with Cons.prems Inr r have "try_apics env ds fc = Inr (True, fc')" by simp
      from Cons.IH [OF this] show ?thesis by auto
    qed
  qed
qed

lemma try_apics_all_fail:
  "try_apics env ds fc = Inr (False, fc') \<longleftrightarrow>
     fc' = fc \<and> (\<forall>d \<in> set ds. \<exists>c. authenticate env (new_apic_client (hostname d)) = Inr (False, c))"
  by (induction ds) (auto split: sum.splits)

lemma connect_to_fabric_fails_iff:
  "connect_to_fabric env fc = Inr (False, fc') \<longleftrightarrow>
     fc' = fc \<and> (\<forall>d \<in> set (apic_devices fc).
                   \<exists>c. authenticate env (new_apic_client (hostname d)) = Inr (False, c))"
  by (simp add: connect_to_fabric_def try_apics_all_fail)

lemma new_fabric_client_sorted:
  "sorted (map priority_key (apic_devices (new_fabric_client ds)))
   \<and> set (apic_devices (new_fabric_client ds)) = set ds
   \<and> length (apic_devices (new_fabric_client ds)) = length ds"
  by (simp add: new_fabric_client_def)

lemma connect_failover_example:
  "connect_to_fabric example_env
     (new_fabric_client [controller ''apic2'' ''10.0.0.2'' 2, controller ''apic1'' ''10.0.0.1'' 1])
   = Inr (True, connected_client)"
  by (simp add: connect_to_fabric_def new_fabric_client_def controller_def priority_key_def
      example_env_def authenticate_def new_apic_client_def login_token_def login_ok_def ebind_def
      py_in_def py_getitem_def py_len_def py_index0_def connected_client_def session_def)

text \<open>
  Claim C3. The controllers are attempted in the order of the key \<open>x.priority or 1\<close>,
  which reads a priority of 0 as 1. Given a controller of priority 1 and then one of
  priority 0, both reachable, the client keeps the order of the list, attempts the
  controller of priority 1 first and makes its session the primary one; in ascending
  priority order the controller of priority 0 comes first.
\<close>

theorem connect_priority_zero_last:
  "map name (apic_devices
      (new_fabric_client [controller ''apic1'' ''10.0.0.1'' 1, controller ''apic0'' ''10.0.0.2'' 0]))
     = [''apic1'', ''apic0'']
   \<and> map_sum id (\<lambda>(ok, fc). (ok, map_option apic_hostname (primary_apic fc)))
       (connect_to_fabric all_up_env
          (new_fabric_client
             [controller ''apic1'' ''10.0.0.1'' 1, controller ''apic0'' ''10.0.0.2'' 0]))
     = Inr (True, Some ''10.0.0.1'')"
  by (simp add: connect_to_fabric_def new_fabric_client_def controller_def priority_key_def
      all_up_env_def example_env_def authenticate_def new_apic_client_def login_token_def
      login_ok_def ebind_def py_in_def py_getitem_def py_len_def py_index0_def)

lemma connect_raises_example:
  "connect_to_fabric (example_env\<lparr>post_login := (\<lambda>host. Response JNull)\<rparr>)
     (new_fabric_client [controller ''apic1'' ''10.0.0.1'' 1, controller ''apic2'' ''10.0.0.2'' 2])
   = Inl TypeError"
  by (simp add: connect_to_fabric_def new_fabric_client_def controller_def priority_key_def
      example_env_def authenticate_def new_apic_client_def login_token_def ebind_def py_in_def)

text \<open>
  Claim C9. \<open>get_fabric_data\<close> returns \<open>None\<close> when the client has no primary session,
  when the primary session is not authenticated, and when the request raises or its
  answer is no JSON; when the session is authenticated and the request succeeds it
  returns the parsed answer. It returns a value and nothing else: the error of a missing
  answer is recorded by the caller, as the loop of the fabric collector does.
\<close>

theorem get_fabric_data_null_or_json:
  "(primary_apic fc = None \<longrightarrow> get_fabric_data env fc endpoint params = JNull)
   \<and> (\<forall>a. primary_apic fc = Some a \<and> \<not> is_authenticated a
          \<longrightarrow> get_fabric_data env fc endpoint params = JNull)
   \<and> (\<forall>a. primary_apic fc = Some a \<and> is_authenticated a
            \<and> http_get env (apic_hostname a) endpoint params \<in> {Request_exception, Json_decode_error}
          \<longrightarrow> get_fabric_data env fc endpoint params = JNull)
   \<and> (\<forall>a d. primary_apic fc = Some a \<and> is_authenticated a
            \<and> http_get env (apic_hostname a) endpoint params = Response d
          \<longrightarrow> get_fabric_data env fc endpoint params = d)
   \<and> (get_fabric_data env fc (ep_endpoint config) (ep_params config) = JNull
          \<longrightarrow> collect_endpoint env fc (data_type, config) (c, fabric_data) =
               (add_error (''No data returned for '' @ data_type) c,
                dict_set fabric_data data_type (fabric_entry config 0 (JList []) None)))"
  by (auto simp: get_fabric_data_def get_data_def collect_endpoint_def read_imdata_def truthy_def)

theorem get_fabric_data_null_or_json_witness:
  "get_fabric_data example_env (new_fabric_client []) ''/api/class/fabricNode.json'' None = JNull
   \<and> get_fabric_data example_env
         (connected_client\<lparr>primary_apic := Some (new_apic_client ''10.0.0.2'')\<rparr>)
         ''/api/class/fabricNode.json'' None = JNull
   \<and> get_fabric_data example_env connected_client ''/api/class/healthInst.json'' None = JNull
   \<and> get_fabric_data example_env connected_client ''/api/class/fabricNode.json'' None
       = three_records
   \<and> self_errors (fst (collect_endpoint example_env connected_client
         (''health'', \<lparr>ep_endpoint = ''/api/class/healthInst.json'',
                       ep_description = ''Health scores for fabric objects'', ep_params = None\<rparr>)
         (new_collector ''FabricCollector'', [])))
       = [''No data returned for health'']"
proof -
  let ?health = "\<lparr>ep_endpoint = ''/api/class/healthInst.json'',
                   ep_description = ''Health scores for fabric objects'', ep_params = None\<rparr>"
  have 1: "get_fabric_data example_env (new_fabric_client []) ''/api/class/fabricNode.json'' None
             = JNull"
    using get_fabric_data_null_or_json
      [where fc = "new_fabric_client []" and env = example_env
         and endpoint = "''/api/class/fabricNode.json''" and params = None]
    by (simp add: new_fabric_client_def)
  have 2: "get_fabric_data example_env
             (connected_client\<lparr>primary_apic := Some (new_apic_client ''10.0.0.2'')\<rparr>)
             ''/api/class/fabricNode.json'' None = JNull"
    using get_fabric_data_null_or_json
      [where fc = "connected_client\<lparr>primary_apic := Some (new_apic_client ''10.0.0.2'')\<rparr>"
         and env = example_env and endpoint = "''/api/class/fabricNode.json''" and params = None]
    by (simp add: new_apic_client_def)
  have 3: "get_fabric_data example_env connected_client ''/api/class/healthInst.json'' None = JNull"
    using get_fabric_data_null_or_json
      [where fc = connected_client and env = example_env
         and endpoint = "''/api/class/healthInst.json''" and params = None]
    by (simp add: connected_client_def session_def example_env_def)
  have 4: "get_fabric_data example_env connected_client ''/api/class/fabricNode.json'' None
             = three_records"
    using get_fabric_data_null_or_json
      [where fc = connected_client and env = example_env
         and endpoint = "''/api/class/fabricNode.json''" and params = None]
    by (simp add: connected_client_def session_def example_env_def)
  have "collect_endpoint example_env connected_client (''health'', ?health)
          (new_collector ''FabricCollector'', []) =
        (add_error (''No data returned for '' @ ''health'') (new_collector ''FabricCollector''),
         dict_set [] ''health'' (fabric_entry ?health 0 (JList []) None))"
    using get_fabric_data_null_or_json
      [where fc = connected_client and env = example_env and config = ?health
         and data_type = "''health''" and c = "new_collector ''FabricCollector''"
         and fabric_data = "[]"] 3
    by simp
  then have 5: "self_errors (fst (collect_endpoint example_env connected_client (''health'', ?health)
                  (new_collector ''FabricCollector'', []))) = [''No data returned for health'']"
    by (simp add: add_error_def new_collector_def)
  from 1 2 3 4 5 show ?thesis by simp
qed

section \<open>Properties of the snapshot listing\<close>

lemma sorted_map_neg:
  "sorted (map (\<lambda>x. - f x) xs) \<longleftrightarrow> sorted_wrt (\<lambda>a b. (f b :: int) \<le> f a) xs"
  by (induction xs) auto

lemma list_snapshots_sorted_by_mtime:
  "sorted_wrt (\<lambda>a b. sn_created b \<le> sn_created a) (list_snapshots dir entries)"
proof -
  have "sorted (map (\<lambda>x. - sn_created x) (list_snapshots dir entries))"
    by (simp add: list_snapshots_def sort_created_reverse_def)
  then show ?thesis by (simp only: sorted_map_neg)
qed

lemma list_snapshots_entries:
  "set (list_snapshots dir entries) = snapshot_info_of dir ` {e \<in> set entries. is_dir e}"
  by (auto simp: list_snapshots_def sort_created_reverse_def)

lemma list_snapshots_length:
  "length (list_snapshots dir entries) = length (filter is_dir entries)"
  by (simp add: list_snapshots_def sort_created_reverse_def)

lemma list_snapshots_stable:
  "filter (\<lambda>x. sn_created x = t) (list_snapshots dir entries) =
     filter (\<lambda>x. sn_created x = t) (map (snapshot_info_of dir) (filter is_dir entries))"
proof -
  have "filter (\<lambda>x. - sn_created x = - t) (list_snapshots dir entries) =
     filter (\<lambda>x. - sn_created x = - t) (map (snapshot_info_of dir) (filter is_dir entries))"
    unfolding list_snapshots_def sort_created_reverse_def by (rule sort_key_stable)
  then show ?thesis by simp
qed

lemma list_snapshots_two_untouched:
  "map sn_name (list_snapshots ''snapshots''
     [\<lparr>entry_name = ''s1'', is_dir = True, created_at = 1, st_mtime = 1, data_files = []\<rparr>,
      \<lparr>entry_name = ''s2'', is_dir = True, created_at = 2, st_mtime = 2, data_files = []\<rparr>])
   = [''s2'', ''s1'']"
  by (simp add: list_snapshots_def sort_created_reverse_def snapshot_info_of_def)

text \<open>
  Claim C6. The listing is sorted by the \<open>st_mtime\<close> of the snapshot directories, which
  the code reports as \<open>created\<close>. A directory changes its \<open>st_mtime\<close> whenever a file
  is added to it: with \<open>s1\<close> made first, \<open>s2\<close> made second and a data file saved
  into \<open>s1\<close> after that, the listing is \<open>[s1, s2]\<close>, where the order of creation,
  newest first, is \<open>[s2, s1]\<close>.
\<close>

theorem list_snapshots_follows_mtime:
  "map sn_name (list_snapshots ''snapshots''
     [\<lparr>entry_name = ''s1'', is_dir = True, created_at = 1, st_mtime = 3,
       data_files = [''snapshots/s1/fabric_data.json'', ''snapshots/s1/leaf_leaf1_data.json'']\<rparr>,
      \<lparr>entry_name = ''s2'', is_dir = True, created_at = 2, st_mtime = 2,
       data_files = [''snapshots/s2/fabric_data.json'']\<rparr>])
   = [''s1'', ''s2'']
   \<and> map entry_name (rev (sort_key created_at
     [\<lparr>entry_name = ''s1'', is_dir = True, created_at = 1, st_mtime = 3,
       data_files = [''snapshots/s1/fabric_data.json'', ''snapshots/s1/leaf_leaf1_data.json'']\<rparr>,
      \<lparr>entry_name = ''s2'', is_dir = True, created_at = 2, st_mtime = 2,
       data_files = [''snapshots/s2/fabric_data.json'']\<rparr>]))
   = [''s2'', ''s1'']"
  by (simp add: list_snapshots_def sort_created_reverse_def snapshot_info_of_def)

section \<open>Properties of the comparison\<close>

lemma first_total_find:
  "first_total p = (case find is_total_count p of None \<Rightarrow> JNull | Some kv \<Rightarrow> snd kv)"
  by (induction p) (auto simp: is_total_count_def)

lemma first_total_int: "first_total p = JNull \<or> isinstance_int (first_total p)"
  by (induction p) auto

lemma extract_count_metric_entry:
  assumes "is_metric_entry v"
  shows "extract_count v = JNull \<or> isinstance_int (extract_count v)"
proof (cases v)
  case (JDict kvs)
  show ?thesis
  proof (cases "map_of kvs ''count''")
    case None
    show ?thesis
    proof (cases "map_of kvs ''processed_data''")
      case None
      with \<open>map_of kvs ''count'' = None\<close> JDict show ?thesis
        by (simp add: extract_count_def)
    next
      case (Some p)
      with \<open>map_of kvs ''count'' = None\<close> JDict first_total_int show ?thesis
        by (cases p) (simp_all add: extract_count_def)
    qed
  next
    case (Some n)
    with assms JDict have "isinstance_int n"
      by (cases n) (simp_all add: is_metric_entry_def isinstance_int_def)
    with Some JDict show ?thesis by (simp add: extract_count_def)
  qed
qed (simp_all add: extract_count_def)

lemma count_differs_same:
  "isinstance_int c \<Longrightarrow> count_differs c c = Inr False"
  by (auto simp: count_differs_def isinstance_int_def is_number_def split: json.splits)

lemma compare_key_same:
  assumes "map_of ms key = Some v" and "is_metric_entry v"
  shows "compare_key ms (JDict ms) key = Inr []"
proof -
  from assms(1) have "key \<in> fst ` set ms" by (metis map_of_eq_None_iff option.distinct(1))
  then have p: "py_in key (JDict ms) = Inr True" by (simp add: py_in_def)
  have g: "py_getitem (JDict ms) key = Inr v" using assms(1) by (simp add: py_getitem_def)
  from extract_count_metric_entry [OF assms(2)] show ?thesis
  proof
    assume "extract_count v = JNull"
    with p g show ?thesis by (simp add: compare_key_def ebind_def)
  next
    assume "isinstance_int (extract_count v)"
    from count_differs_same [OF this] p g show ?thesis
      by (simp add: compare_key_def ebind_def Let_def)
  qed
qed

lemma compare_keys_same:
  assumes "list_all (\<lambda>(k, m). is_metric_entry m) ms"
  shows "set ks \<subseteq> fst ` set ms \<Longrightarrow> compare_keys ms (JDict ms) ks = Inr []"
proof (induction ks)
  case Nil
  then show ?case by simp
next
  case (Cons key ks)
  then have "key \<in> fst ` set ms" by simp
  then obtain v where v: "map_of ms key = Some v"
    by (metis map_of_eq_None_iff not_Some_eq)
  then have "(key, v) \<in> set ms" by (rule map_of_SomeD)
  with assms have "is_metric_entry v" by (auto simp: list_all_iff)
  from compare_key_same [OF v this] Cons show ?case by (simp add: ebind_def)
qed

lemma compare_collections_same:
  assumes "is_collection_result d"
  shows "compare_collections d d = Inr []"
proof -
  from assms obtain kvs where d: "d = JDict kvs"
    by (cases d) (simp_all add: is_collection_result_def)
  from assms d obtain es where e: "map_of kvs ''errors'' = Some (JList es)"
    by (cases "map_of kvs ''errors''"; cases "the (map_of kvs ''errors'')")
       (simp_all add: is_collection_result_def)
  from assms d obtain ms where m: "map_of kvs ''data'' = Some (JDict ms)"
    and w: "list_all (\<lambda>(k, m). is_metric_entry m) ms"
    by (cases "map_of kvs ''data''"; cases "the (map_of kvs ''data'')")
       (simp_all add: is_collection_result_def)
  have k: "compare_keys ms (JDict ms) (map fst ms) = Inr []"
    by (rule compare_keys_same [OF w]) simp
  show ?thesis
    using d e m k
    by (simp add: compare_collections_def ebind_def py_get_def py_len_def py_keys_def)
qed

lemma remdups_twice: "remdups (xs @ xs) = remdups xs"
proof -
  have "filter (\<lambda>x. x \<notin> set xs) xs = []" by (simp add: filter_empty_conv)
  then show ?thesis by (simp add: remdups_append)
qed

lemma compare_section_same:
  assumes "is_snapshot s"
  shows "compare_section s s k = Inr No_data \<or> compare_section s s k = Inr (Changes [])"
proof (cases "truthy (snapshot_get s k)")
  case False
  then show ?thesis by (simp add: compare_section_def)
next
  case True
  then obtain d where d: "map_of s k = Some d" and t: "truthy d"
    by (auto simp: snapshot_get_def truthy_def split: option.splits)
  from d have "(k, d) \<in> set s" by (rule map_of_SomeD)
  with assms t have "is_collection_result d"
    by (auto simp: is_snapshot_def list_all_iff truthy_def)
  from compare_collections_same [OF this] d t show ?thesis
    by (simp add: compare_section_def snapshot_get_def ebind_def)
qed

lemma compare_sections_same:
  assumes "is_snapshot s"
  shows "\<exists>secs. compare_sections s s ks = Inr secs \<and> map fst secs = ks
           \<and> list_all (\<lambda>(k, sec). sec = No_data \<or> sec = Changes []) secs"
proof (induction ks)
  case Nil
  then show ?case by simp
next
  case (Cons k ks)
  then obtain secs where s: "compare_sections s s ks = Inr secs" "map fst secs = ks"
    "list_all (\<lambda>(k, sec). sec = No_data \<or> sec = Changes []) secs" by blast
  from compare_section_same [OF assms, of k] s show ?case
    by (auto simp: ebind_def)
qed

text \<open>
  Claim C5. Comparing a snapshot with itself gives, for every collection key, an empty
  list of changes: every section of the report says that there is no data in either
  snapshot (for a collection that did not load) or that no change was detected, and the
  comparison of every collection with itself reports no change of the error count, no
  count change, no missing data and no new data.
\<close>

theorem compare_snapshot_with_itself:
  assumes "is_snapshot s"
  shows "(\<exists>secs. create_comparison_report s s = Inr secs
            \<and> map fst secs = sort (remdups (map fst s))
            \<and> list_all (\<lambda>(k, sec). sec = No_data \<or> sec = Changes []) secs)
       \<and> list_all (\<lambda>(k, d). d = JNull \<or> compare_collections d d = Inr []) s"
proof
  from compare_sections_same [OF assms, of "sort (remdups (map fst s @ map fst s))"]
  show "\<exists>secs. create_comparison_report s s = Inr secs
            \<and> map fst secs = sort (remdups (map fst s))
            \<and> list_all (\<lambda>(k, sec). sec = No_data \<or> sec = Changes []) secs"
    by (simp add: create_comparison_report_def remdups_twice)
next
  from assms show "list_all (\<lambda>(k, d). d = JNull \<or> compare_collections d d = Inr []) s"
    by (auto simp: is_snapshot_def list_all_iff compare_collections_same)
qed

theorem compare_snapshot_with_itself_witness:
  "\<exists>secs. create_comparison_report
       [(''leaf_leaf1'', leaf_collection 48), (''fabric'', fabric_collection 5), (''apic'', JNull)]
       [(''leaf_leaf1'', leaf_collection 48), (''fabric'', fabric_collection 5), (''apic'', JNull)]
     = Inr secs
     \<and> map fst secs = [''apic'', ''fabric'', ''leaf_leaf1'']
     \<and> list_all (\<lambda>(k, sec). sec = No_data \<or> sec = Changes []) secs"
proof -
  let ?s = "[(''leaf_leaf1'', leaf_collection 48), (''fabric'', fabric_collection 5),
             (''apic'', JNull)]"
  have wf: "is_snapshot ?s"
    by (simp add: is_snapshot_def is_collection_result_def is_metric_entry_def
        leaf_collection_def fabric_collection_def topology_entry_def)
  have keys: "sort (remdups (map fst ?s)) = [''apic'', ''fabric'', ''leaf_leaf1'']"
    by code_simp
  from compare_snapshot_with_itself [OF wf] obtain secs where
    "create_comparison_report ?s ?s = Inr secs"
    "map fst secs = sort (remdups (map fst ?s))"
    "list_all (\<lambda>(k, sec). sec = No_data \<or> sec = Changes []) secs"
    by blast
  with keys show ?thesis by (intro exI [of _ secs]) simp
qed

lemma compare_sections_example:
  "create_comparison_report
       [(''leaf_leaf1'', leaf_collection 48), (''fabric'', fabric_collection 5), (''apic'', JNull)]
       [(''leaf_leaf1'', leaf_collection 47), (''fabric'', fabric_collection 5),
        (''spine_s1'', fabric_collection 1)]
     = Inr [(''apic'', No_data),
            (''fabric'', Changes []),
            (''leaf_leaf1'', Changes [Count_changed ''interfaces'' (JInt 48) (JInt 47)]),
            (''spine_s1'', New_collection)]"
  by code_simp

lemma extract_count_of_count:
  "map_of e ''count'' = Some v \<Longrightarrow> extract_count (JDict e) = v"
  by (simp add: extract_count_def)

lemma extract_count_of_total:
  "map_of e ''count'' = None \<Longrightarrow> map_of e ''processed_data'' = Some (JDict p) \<Longrightarrow>
     extract_count (JDict e) = (case find is_total_count p of None \<Rightarrow> JNull | Some kv \<Rightarrow> snd kv)"
  by (simp add: extract_count_def first_total_find)

lemma extract_count_none:
  "map_of e ''count'' = None \<Longrightarrow> \<forall>p. map_of e ''processed_data'' \<noteq> Some (JDict p) \<Longrightarrow>
     extract_count (JDict e) = JNull"
  by (auto simp: extract_count_def split: option.splits json.splits)

lemma count_differs_ints:
  "isinstance_int x \<Longrightarrow> isinstance_int y \<Longrightarrow>
     count_differs x y = Inr (int_value x \<noteq> int_value y)"
  by (auto simp: count_differs_def isinstance_int_def is_number_def split: json.splits)

lemma isinstance_int_not_null: "isinstance_int x \<Longrightarrow> x \<noteq> JNull"
  by (auto simp: isinstance_int_def)

lemma compare_key_present:
  assumes "map_of baseline_data key = Some b" and "map_of current_data key = Some c"
  shows "compare_key baseline_data (JDict current_data) key =
     (if extract_count b \<noteq> JNull \<and> extract_count c \<noteq> JNull
      then ebind (count_differs (extract_count c) (extract_count b)) (\<lambda>differs.
             if differs then Inr [Count_changed key (extract_count b) (extract_count c)]
             else Inr [])
      else Inr [])"
proof -
  from assms(2) have "key \<in> fst ` set current_data"
    by (metis map_of_eq_None_iff option.distinct(1))
  then have "py_in key (JDict current_data) = Inr True" by (simp add: py_in_def)
  with assms show ?thesis
    by (simp add: compare_key_def ebind_def py_getitem_def Let_def)
qed

text \<open>
  Claim C4, as amended. For a metric key that both collections have, the count of an
  entry is its \<open>count\<close> field where it has one, and otherwise the first integer of its
  \<open>processed_data\<close> whose lower-cased key contains \<open>total\<close>; there is no count when
  the entry has neither. The comparison reports a count change for the key exactly when
  both entries have a count and the two counts differ, and nothing for the key when an
  entry has none.
\<close>

theorem count_change_from_count_or_total:
  assumes "map_of baseline_data key = Some b" and "map_of current_data key = Some c"
  shows "(extract_count b = JNull \<or> extract_count c = JNull
            \<longrightarrow> compare_key baseline_data (JDict current_data) key = Inr [])
       \<and> (isinstance_int (extract_count b) \<and> isinstance_int (extract_count c)
            \<longrightarrow> compare_key baseline_data (JDict current_data) key =
                 Inr (if int_value (extract_count b) = int_value (extract_count c) then []
                      else [Count_changed key (extract_count b) (extract_count c)]))
       \<and> (\<forall>e v. map_of e ''count'' = Some v \<longrightarrow> extract_count (JDict e) = v)
       \<and> (\<forall>e p. map_of e ''count'' = None \<and> map_of e ''processed_data'' = Some (JDict p)
            \<longrightarrow> extract_count (JDict e) =
                 (case find is_total_count p of None \<Rightarrow> JNull | Some kv \<Rightarrow> snd kv))
       \<and> (\<forall>e. map_of e ''count'' = None \<and> (\<forall>p. map_of e ''processed_data'' \<noteq> Some (JDict p))
            \<longrightarrow> extract_count (JDict e) = JNull)"
proof (intro conjI allI impI)
  assume "extract_count b = JNull \<or> extract_count c = JNull"
  then show "compare_key baseline_data (JDict current_data) key = Inr []"
    by (auto simp: compare_key_present [OF assms])
next
  assume i: "isinstance_int (extract_count b) \<and> isinstance_int (extract_count c)"
  then have "count_differs (extract_count c) (extract_count b) =
      Inr (int_value (extract_count c) \<noteq> int_value (extract_count b))"
    by (simp add: count_differs_ints)
  with i show "compare_key baseline_data (JDict current_data) key =
                 Inr (if int_value (extract_count b) = int_value (extract_count c) then []
                      else [Count_changed key (extract_count b) (extract_count c)])"
    by (auto simp: compare_key_present [OF assms] ebind_def isinstance_int_not_null)
next
  fix e :: py_dict and v assume "map_of e ''count'' = Some v"
  then show "extract_count (JDict e) = v" by (rule extract_count_of_count)
next
  fix e :: py_dict and p
  assume "map_of e ''count'' = None \<and> map_of e ''processed_data'' = Some (JDict p)"
  then show "extract_count (JDict e) =
      (case find is_total_count p of None \<Rightarrow> JNull | Some kv \<Rightarrow> snd kv)"
    by (simp add: extract_count_of_total)
next
  fix e :: py_dict
  assume "map_of e ''count'' = None \<and> (\<forall>p. map_of e ''processed_data'' \<noteq> Some (JDict p))"
  then show "extract_count (JDict e) = JNull" by (simp add: extract_count_none)
qed

text \<open>
  Claim C4 as stated fails where an entry has a \<open>count\<close> field. Two entries of the
  controller collector with the same first \<open>total\<close> field and different record counts
  are reported as changed, and so are two entries of the fabric collector, which have no
  field with \<open>total\<close> in its name at all.
\<close>

theorem count_heuristic_counterexample:
  "first_total_field (cluster_health_entry 3 3) = Some (''total_cluster_nodes'', JInt 3)
   \<and> first_total_field (cluster_health_entry 4 3) = Some (''total_cluster_nodes'', JInt 3)
   \<and> compare_collections (apic_collection 3 3) (apic_collection 4 3)
       = Inr [Count_changed ''cluster_health'' (JInt 3) (JInt 4)]
   \<and> first_total_field (topology_entry 5) = None
   \<and> first_total_field (topology_entry 7) = None
   \<and> compare_collections (fabric_collection 5) (fabric_collection 7)
       = Inr [Count_changed ''topology'' (JInt 5) (JInt 7)]"
  by code_simp

theorem count_change_from_count_or_total_witness:
  "compare_key [(''cluster_health'', cluster_health_entry 3 3)]
       (JDict [(''cluster_health'', cluster_health_entry 4 3)]) ''cluster_health''
     = Inr [Count_changed ''cluster_health'' (JInt 3) (JInt 4)]
   \<and> compare_key [(''device_info'', JDict [(''name'', JStr ''leaf1'')])]
       (JDict [(''device_info'', JDict [(''name'', JStr ''leaf2'')])]) ''device_info''
     = Inr []
   \<and> extract_count (JDict [(''count'', JInt 3),
         (''processed_data'', JDict [(''total_cluster_nodes'', JInt 2)])]) = JInt 3
   \<and> extract_count (JDict [(''command'', JStr ''show vlan brief''),
         (''processed_data'', JDict [(''raw_line_count'', JInt 9), (''Total_vlans'', JInt 4),
                                     (''total_other'', JInt 1)])]) = JInt 4
   \<and> extract_count (JDict [(''name'', JStr ''leaf1'')]) = JNull"
proof -
  let ?b = "[(''cluster_health'', cluster_health_entry 3 3)]"
  let ?c = "[(''cluster_health'', cluster_health_entry 4 3)]"
  have b: "map_of ?b ''cluster_health'' = Some (cluster_health_entry 3 3)" by simp
  have c: "map_of ?c ''cluster_health'' = Some (cluster_health_entry 4 3)" by simp
  note t = count_change_from_count_or_total [OF b c]
  have eb: "extract_count (cluster_health_entry 3 3) = JInt 3"
    and ec: "extract_count (cluster_health_entry 4 3) = JInt 4"
    by (simp_all add: extract_count_def cluster_health_entry_def)
  from t have "isinstance_int (extract_count (cluster_health_entry 3 3))
        \<and> isinstance_int (extract_count (cluster_health_entry 4 3))
      \<longrightarrow> compare_key ?b (JDict ?c) ''cluster_health'' =
          Inr (if int_value (extract_count (cluster_health_entry 3 3))
                  = int_value (extract_count (cluster_health_entry 4 3)) then []
               else [Count_changed ''cluster_health'' (extract_count (cluster_health_entry 3 3))
                       (extract_count (cluster_health_entry 4 3))])"
    by blast
  then have 1: "compare_key ?b (JDict ?c) ''cluster_health''
      = Inr [Count_changed ''cluster_health'' (JInt 3) (JInt 4)]"
    by (simp add: eb ec isinstance_int_def int_value_def)
  let ?d1 = "[(''device_info'', JDict [(''name'', JStr ''leaf1'')])]"
  let ?d2 = "[(''device_info'', JDict [(''name'', JStr ''leaf2'')])]"
  have d1: "map_of ?d1 ''device_info'' = Some (JDict [(''name'', JStr ''leaf1'')])" by simp
  have d2: "map_of ?d2 ''device_info'' = Some (JDict [(''name'', JStr ''leaf2'')])" by simp
  note u = count_change_from_count_or_total [OF d1 d2]
  from u have 5: "extract_count (JDict [(''name'', JStr ''leaf1'')]) = JNull"
    by simp
  from u have "extract_count (JDict [(''name'', JStr ''leaf1'')]) = JNull
         \<or> extract_count (JDict [(''name'', JStr ''leaf2'')]) = JNull
      \<longrightarrow> compare_key ?d1 (JDict ?d2) ''device_info'' = Inr []"
    by blast
  with 5 have 2: "compare_key ?d1 (JDict ?d2) ''device_info'' = Inr []" by blast
  from u have 3: "extract_count (JDict [(''count'', JInt 3),
         (''processed_data'', JDict [(''total_cluster_nodes'', JInt 2)])]) = JInt 3"
    by simp
  from u have "map_of [(''command'', JStr ''show vlan brief''),
         (''processed_data'', JDict [(''raw_line_count'', JInt 9), (''Total_vlans'', JInt 4),
                                     (''total_other'', JInt 1)])] ''count'' = None \<and>
      map_of [(''command'', JStr ''show vlan brief''),
         (''processed_data'', JDict [(''raw_line_count'', JInt 9), (''Total_vlans'', JInt 4),
                                     (''total_other'', JInt 1)])] ''processed_data''
        = Some (JDict [(''raw_line_count'', JInt 9), (''Total_vlans'', JInt 4),
                       (''total_other'', JInt 1)])
      \<longrightarrow> extract_count (JDict [(''command'', JStr ''show vlan brief''),
         (''processed_data'', JDict [(''raw_line_count'', JInt 9), (''Total_vlans'', JInt 4),
                                     (''total_other'', JInt 1)])])
        = (case find is_total_count [(''raw_line_count'', JInt 9), (''Total_vlans'', JInt 4),
                                     (''total_other'', JInt 1)] of
             None \<Rightarrow> JNull | Some kv \<Rightarrow> snd kv)"
    by blast
  moreover have "find is_total_count [(''raw_line_count'', JInt 9), (''Total_vlans'', JInt 4),
                                     (''total_other'', JInt 1)] = Some (''Total_vlans'', JInt 4)"
    by code_simp
  ultimately have 4: "extract_count (JDict [(''command'', JStr ''show vlan brief''),
         (''processed_data'', JDict [(''raw_line_count'', JInt 9), (''Total_vlans'', JInt 4),
                                     (''total_other'', JInt 1)])]) = JInt 4"
    by simp
  from 1 2 3 4 5 show ?thesis by blast
qed

section \<open>Properties of the collectors\<close>
















lemma validation_message_critical: "is_validation_message (''Critical: '' @ m)"
  by (simp add: is_validation_message_def startswith_def)

lemma validation_message_warning: "is_validation_message (''Warning: '' @ m)"
  by (simp add: is_validation_message_def startswith_def)




























lemma one_failure_one_error_fabric:
  "map_sum id (errors \<circ> fst)
       (fabric_collect example_env 0 5000000 five_endpoints connected_client
          (new_collector ''FabricCollector''))
     = Inr [''No data returned for health'']
   \<and> map_sum id (map (\<lambda>(k, e). (k, py_getitem e ''count'')) \<circ> data \<circ> fst)
       (fabric_collect example_env 0 5000000 five_endpoints connected_client
          (new_collector ''FabricCollector''))
     = Inr [(''topology'', Inr (JInt 3)), (''links'', Inr (JInt 3)), (''faults'', Inr (JInt 3)),
            (''health'', Inr (JInt 0)), (''discovery'', Inr (JInt 3))]"
  by code_simp

lemma one_failure_one_error_leaf:
  "map_sum id (errors \<circ> fst)
       (leaf_collect vlan_down_env 0 5000000 five_commands connected_client leaf1
          (new_collector ''LeafCollector''))
     = Inr [''No output for vlans command on leaf1'']
   \<and> map_sum id (map (\<lambda>(k, e). (k, py_in ''error'' e)) \<circ> data \<circ> fst)
       (leaf_collect vlan_down_env 0 5000000 five_commands connected_client leaf1
          (new_collector ''LeafCollector''))
     = Inr [(''device_info'', Inr False), (''interfaces'', Inr False),
            (''port_channels'', Inr False), (''vlans'', Inr True), (''vpc'', Inr False),
            (''fabric_interfaces'', Inr False)]"
  by code_simp


end
